theory Spec2Isabelle
  imports Complex_Main "HOL-Library.Char_ord" "HOL-Library.List_Lexorder"
begin

section \<open>The table comparator of \<^verbatim>\<open>verification/compare.py\<close>\<close>

text \<open>
  \<^verbatim>\<open>compare_tables\<close> receives two PyArrow tables and two display labels, collects a list
  of issues (dictionaries with a \<^verbatim>\<open>type\<close> and a \<^verbatim>\<open>message\<close>) and returns
  \<^verbatim>\<open>True\<close> exactly when that list is empty. The embedding below follows the function
  line by line. The PyArrow operations it calls are not part of the repository; each one is
  given a definition of its documented behaviour on a universe of four scalar types
  (\<^verbatim>\<open>int64\<close>, \<^verbatim>\<open>double\<close>, \<^verbatim>\<open>string\<close>, \<^verbatim>\<open>bool\<close>) and two nested ones
  (\<^verbatim>\<open>list\<close>, \<^verbatim>\<open>struct\<close>). Chunking of columns and the printed narration are not
  modelled; the issue list, which the function prints in its final report, is.
\<close>

subsection \<open>Values, types, columns and tables\<close>

text \<open>
  A \<^verbatim>\<open>double\<close> is either a number or NaN (infinities and the sign of zero play no role
  in the comparator and are left out).
\<close>

datatype f64 = FNum rat | FNaN

datatype dtype = Int64 | Float64 | Utf8 | Bool
  | ListT dtype
  | StructT "(string \<times> dtype) list"

text \<open>
  One type of values serves for the cells of a column and for the Python objects that
  \<^verbatim>\<open>to_pylist\<close> produces from them: \<open>Null\<close> is \<^verbatim>\<open>None\<close>, a \<open>ListV\<close> a Python list,
  a \<open>StructV\<close> a Python dictionary from field names to values.
\<close>

datatype val = Null | IntV int | FloatV f64 | StrV string | BoolV bool
  | ListV "val list"
  | StructV "(string \<times> val) list"

text \<open>\<^verbatim>\<open>pa.types.is_nested\<close>: list and struct types are nested, the others are not.\<close>

fun is_nested :: "dtype \<Rightarrow> bool" where
  "is_nested (ListT _) = True"
| "is_nested (StructT _) = True"
| "is_nested _ = False"

record column =
  cname :: string
  ctype :: dtype
  cvals :: "val list"

record table =
  num_rows :: nat
  columns :: "column list"

definition column_names :: "table \<Rightarrow> string list" where
  "column_names t = map cname (columns t)"

text \<open>A value conforms to a type when it is null or built as the type says.\<close>

fun conforms :: "dtype \<Rightarrow> val \<Rightarrow> bool"
  and conforms_fields :: "(string \<times> dtype) list \<Rightarrow> (string \<times> val) list \<Rightarrow> bool" where
  "conforms ty Null = True"
| "conforms Int64 (IntV i) = True"
| "conforms Float64 (FloatV x) = True"
| "conforms Utf8 (StrV s) = True"
| "conforms Bool (BoolV b) = True"
| "conforms (ListT ty) (ListV xs) = list_all (conforms ty) xs"
| "conforms (StructT fs) (StructV kvs) = conforms_fields fs kvs"
| "conforms _ _ = False"
| "conforms_fields [] [] = True"
| "conforms_fields ((n, ty) # fs) ((k, v) # kvs) = (n = k \<and> conforms ty v \<and> conforms_fields fs kvs)"
| "conforms_fields _ _ = False"

text \<open>
  The Table contract of the specification: column names are unique within a table, every
  column holds exactly \<open>num_rows\<close> values, and the values are of the column's declared type.
\<close>

definition wf_table :: "table \<Rightarrow> bool" where
  "wf_table t \<longleftrightarrow>
     distinct (column_names t) \<and>
     list_all (\<lambda>c. length (cvals c) = num_rows t \<and> list_all (conforms (ctype c)) (cvals c))
       (columns t)"

subsection \<open>Exceptions\<close>

text \<open>
  The exceptions the calls below can raise. A function that may raise returns
  \<open>error + 'a\<close>, with \<open>Inl\<close> for the exception. The comparator never looks at the
  class of an exception: the handler of line 128 puts its text into a message, the one of
  line 121 drops it.
\<close>

datatype error = KeyError string | ValueError | IndexError | StopIteration
  | ArrowInvalid | ArrowTypeError | ArrowNotImplementedError | ArrowIndexError

subsection \<open>The PyArrow and Python operations used by the comparator\<close>

text \<open>
  \<^verbatim>\<open>table.schema.field(name).type\<close>: the lookup of a field by name raises
  \<^verbatim>\<open>KeyError\<close> when no field, or more than one field, has that name.
\<close>

definition schema_field_type :: "table \<Rightarrow> string \<Rightarrow> error + dtype" where
  "schema_field_type t n =
     (case filter (\<lambda>c. cname c = n) (columns t) of
        [c] \<Rightarrow> Inr (ctype c)
      | _ \<Rightarrow> Inl (KeyError n))"

text \<open>\<^verbatim>\<open>table[name]\<close>: the column of that name, with the same failure.\<close>

definition getitem :: "table \<Rightarrow> string \<Rightarrow> error + column" where
  "getitem t n =
     (case filter (\<lambda>c. cname c = n) (columns t) of
        [c] \<Rightarrow> Inr c
      | _ \<Rightarrow> Inl (KeyError n))"

text \<open>
  The order of \<^verbatim>\<open>sort_by\<close> on scalar values, ascending with the default null
  placement: values in their natural order (strings by bytes, \<open>False\<close> before \<open>True\<close>),
  NaN after every number, nulls at the end. The last equation is not reached on values
  that conform to one scalar type.
\<close>

fun f64_le :: "f64 \<Rightarrow> f64 \<Rightarrow> bool" where
  "f64_le _ FNaN = True"
| "f64_le FNaN (FNum _) = False"
| "f64_le (FNum a) (FNum b) = (a \<le> b)"

fun key_le :: "val \<Rightarrow> val \<Rightarrow> bool" where
  "key_le _ Null = True"
| "key_le Null _ = False"
| "key_le (IntV a) (IntV b) = (a \<le> b)"
| "key_le (FloatV a) (FloatV b) = f64_le a b"
| "key_le (StrV a) (StrV b) = (a \<le> b)"
| "key_le (BoolV a) (BoolV b) = (a \<le> b)"
| "key_le _ _ = True"

text \<open>
  A key column of struct type is sorted by its fields, in their order, and a field of
  struct type by its own fields in turn: the key of a row is the list of its scalar
  leaves, and a null struct has null leaves. A list type cannot be sorted, alone or as a
  field. A key of scalar type has the value itself as its one leaf.
\<close>

fun sortable :: "dtype \<Rightarrow> bool" where
  "sortable (ListT _) = False"
| "sortable (StructT fs) = list_all sortable (map snd fs)"
| "sortable _ = True"

fun key_leaves :: "dtype \<Rightarrow> val \<Rightarrow> val list"
  and key_leaves_fields :: "(string \<times> dtype) list \<Rightarrow> (string \<times> val) list \<Rightarrow> val list" where
  "key_leaves (StructT fs) (StructV kvs) = key_leaves_fields fs kvs"
| "key_leaves (StructT fs) v = key_leaves_fields fs []"
| "key_leaves ty v = [v]"
| "key_leaves_fields [] kvs = []"
| "key_leaves_fields ((n, ty) # fs) [] = key_leaves ty Null @ key_leaves_fields fs []"
| "key_leaves_fields ((n, ty) # fs) ((k, v) # kvs) = key_leaves ty v @ key_leaves_fields fs kvs"

text \<open>Two keys are compared leaf by leaf; the first leaf that is not a tie decides.\<close>

fun leaves_le :: "val list \<Rightarrow> val list \<Rightarrow> bool" where
  "leaves_le (x # xs) (y # ys) =
     (if key_le x y \<and> key_le y x then leaves_le xs ys else key_le x y)"
| "leaves_le _ _ = True"

text \<open>
  \<^verbatim>\<open>pc.sort_indices\<close> is a stable sort: the row indices in key order, rows with equal
  keys in their original order. Here by insertion, from the last row to the first.
\<close>

fun insert_idx :: "val list list \<Rightarrow> nat \<Rightarrow> nat list \<Rightarrow> nat list" where
  "insert_idx ks i [] = [i]"
| "insert_idx ks i (j # js) =
     (if leaves_le (ks ! i) (ks ! j) then i # j # js else j # insert_idx ks i js)"

definition sort_indices :: "dtype \<Rightarrow> val list \<Rightarrow> nat list" where
  "sort_indices ty vs =
     foldr (insert_idx (map (key_leaves ty) vs)) [0..<length vs] []"

text \<open>
  \<^verbatim>\<open>table.take(indices)\<close>: the rows at the given indices, in that order. An index beyond
  a column raises (no table built by PyArrow has such a column).
\<close>

definition take_rows :: "table \<Rightarrow> nat list \<Rightarrow> error + table" where
  "take_rows t idx =
     (if list_all (\<lambda>c. list_all (\<lambda>i. i < length (cvals c)) idx) (columns t)
      then Inr \<lparr>num_rows = length idx,
                columns = map (\<lambda>c. c\<lparr>cvals := map (\<lambda>i. cvals c ! i) idx\<rparr>) (columns t)\<rparr>
      else Inl ArrowIndexError)"

text \<open>
  \<^verbatim>\<open>table.sort_by(name)\<close> is \<^verbatim>\<open>table.take(pc.sort_indices(table, [(name, "ascending")]))\<close>.
  It raises when the name matches no column or several, and when the type of the key
  column cannot be sorted.
\<close>

definition sort_by :: "table \<Rightarrow> string \<Rightarrow> error + table" where
  "sort_by t sorting =
     (case filter (\<lambda>c. cname c = sorting) (columns t) of
        [key] \<Rightarrow> if \<not> sortable (ctype key) then Inl ArrowTypeError
                 else take_rows t (sort_indices (ctype key) (cvals key))
      | _ \<Rightarrow> Inl ArrowInvalid)"

text \<open>
  \<^verbatim>\<open>column.to_pylist()\<close>: the values as Python objects. The conversion of a struct with
  two fields of the same name to a dictionary raises \<^verbatim>\<open>ValueError\<close>.
\<close>

fun py_convertible :: "val \<Rightarrow> bool" where
  "py_convertible (ListV xs) = list_all py_convertible xs"
| "py_convertible (StructV kvs) =
     (distinct (map fst kvs) \<and> list_all py_convertible (map snd kvs))"
| "py_convertible _ = True"

definition to_pylist :: "column \<Rightarrow> error + val list" where
  "to_pylist c =
     (if list_all py_convertible (cvals c) then Inr (cvals c) else Inl ValueError)"

text \<open>
  Python's \<^verbatim>\<open>==\<close> on the objects of \<^verbatim>\<open>to_pylist\<close>: \<^verbatim>\<open>None\<close> equals only \<^verbatim>\<open>None\<close>,
  strings equal strings, \<^verbatim>\<open>bool\<close>, \<^verbatim>\<open>int\<close> and \<^verbatim>\<open>float\<close> compare by numeric value
  (\<^verbatim>\<open>True == 1 == 1.0\<close>), NaN equals nothing (two calls of \<^verbatim>\<open>to_pylist\<close> never share
  a float object, so the identity shortcut of container comparison does not apply), lists
  compare element by element, dictionaries by key.
\<close>

fun py_num :: "val \<Rightarrow> rat option" where
  "py_num (IntV i) = Some (of_int i)"
| "py_num (BoolV b) = Some (if b then 1 else 0)"
| "py_num (FloatV (FNum r)) = Some r"
| "py_num _ = None"

fun py_eq :: "val \<Rightarrow> val \<Rightarrow> bool"
  and py_eq_list :: "val list \<Rightarrow> val list \<Rightarrow> bool"
  and py_eq_items :: "(string \<times> val) list \<Rightarrow> (string \<times> val) list \<Rightarrow> bool" where
  "py_eq Null y = (y = Null)"
| "py_eq (StrV s) y = (y = StrV s)"
| "py_eq (ListV xs) (ListV ys) = py_eq_list xs ys"
| "py_eq (ListV xs) _ = False"
| "py_eq (StructV a) (StructV b) = (length a = length b \<and> py_eq_items a b)"
| "py_eq (StructV a) _ = False"
| "py_eq x y = (case py_num x of None \<Rightarrow> False
                 | Some a \<Rightarrow> (case py_num y of None \<Rightarrow> False | Some b \<Rightarrow> a = b))"
| "py_eq_list [] ys = (ys = [])"
| "py_eq_list (x # xs) [] = False"
| "py_eq_list (x # xs) (y # ys) = (py_eq x y \<and> py_eq_list xs ys)"
| "py_eq_items [] b = True"
| "py_eq_items ((k, v) # a) b =
     (case map_of b k of None \<Rightarrow> False | Some w \<Rightarrow> py_eq v w \<and> py_eq_items a b)"

text \<open>
  \<^verbatim>\<open>col1.equals(col2)\<close> on two columns: same length, same type, and at every position
  both null or both the same value; with the default options NaN is not equal to NaN.
  The comparator calls it only where the first table's type is scalar, and the types are
  compared first, so values of nested type never reach the last equation.
\<close>

fun arrow_eq :: "val \<Rightarrow> val \<Rightarrow> bool" where
  "arrow_eq Null Null = True"
| "arrow_eq (IntV a) (IntV b) = (a = b)"
| "arrow_eq (FloatV (FNum a)) (FloatV (FNum b)) = (a = b)"
| "arrow_eq (StrV a) (StrV b) = (a = b)"
| "arrow_eq (BoolV a) (BoolV b) = (a = b)"
| "arrow_eq _ _ = False"

definition equals :: "column \<Rightarrow> column \<Rightarrow> bool" where
  "equals col1 col2 \<longleftrightarrow>
     length (cvals col1) = length (cvals col2) \<and>
     ctype col1 = ctype col2 \<and>
     list_all2 arrow_eq (cvals col1) (cvals col2)"

text \<open>
  \<^verbatim>\<open>pc.not_equal(col1, col2)\<close>: a comparison kernel exists for two columns of the same
  scalar type and, through the implicit cast to \<^verbatim>\<open>double\<close>, for \<^verbatim>\<open>int64\<close> against
  \<^verbatim>\<open>double\<close>; otherwise the call raises. The cast is a safe cast: it raises when an
  \<^verbatim>\<open>int64\<close> value lies outside the range from \<open>-2^53\<close> to \<open>2^53\<close>. The columns must have
  the same length. The result is null wherever either side is null, and NaN differs from
  everything.
\<close>

fun ne_kernel :: "dtype \<Rightarrow> dtype \<Rightarrow> bool" where
  "ne_kernel Int64 Int64 = True"
| "ne_kernel Float64 Float64 = True"
| "ne_kernel Int64 Float64 = True"
| "ne_kernel Float64 Int64 = True"
| "ne_kernel Utf8 Utf8 = True"
| "ne_kernel Bool Bool = True"
| "ne_kernel _ _ = False"

fun arrow_num :: "val \<Rightarrow> rat option" where
  "arrow_num (IntV i) = Some (of_int i)"
| "arrow_num (FloatV (FNum r)) = Some r"
| "arrow_num _ = None"

fun ne_val :: "val \<Rightarrow> val \<Rightarrow> bool option" where
  "ne_val Null _ = None"
| "ne_val _ Null = None"
| "ne_val (StrV a) (StrV b) = Some (a \<noteq> b)"
| "ne_val (BoolV a) (BoolV b) = Some (a \<noteq> b)"
| "ne_val x y = (case arrow_num x of None \<Rightarrow> Some True
                  | Some a \<Rightarrow> (case arrow_num y of None \<Rightarrow> Some True | Some b \<Rightarrow> Some (a \<noteq> b)))"

fun cast_to_double_fails :: "val \<Rightarrow> bool" where
  "cast_to_double_fails (IntV i) = (i < - (2 ^ 53) \<or> 2 ^ 53 < i)"
| "cast_to_double_fails _ = False"

definition implicit_cast_fails :: "column \<Rightarrow> column \<Rightarrow> bool" where
  "implicit_cast_fails col1 col2 \<longleftrightarrow>
     ctype col1 = Int64 \<and> ctype col2 = Float64 \<and> list_ex cast_to_double_fails (cvals col1) \<or>
     ctype col1 = Float64 \<and> ctype col2 = Int64 \<and> list_ex cast_to_double_fails (cvals col2)"

definition not_equal :: "column \<Rightarrow> column \<Rightarrow> error + bool option list" where
  "not_equal col1 col2 =
     (if \<not> ne_kernel (ctype col1) (ctype col2) then Inl ArrowNotImplementedError
      else if implicit_cast_fails col1 col2 then Inl ArrowInvalid
      else if length (cvals col1) \<noteq> length (cvals col2) then Inl ArrowInvalid
      else Inr (map2 ne_val (cvals col1) (cvals col2)))"

text \<open>
  \<^verbatim>\<open>pc.index(array, True).as_py()\<close>: the position of the first \<^verbatim>\<open>True\<close>, and \<open>-1\<close> when
  there is none (a null is not \<^verbatim>\<open>True\<close>).
\<close>

fun index_from :: "int \<Rightarrow> bool option list \<Rightarrow> int" where
  "index_from i [] = - 1"
| "index_from i (b # bs) = (if b = Some True then i else index_from (i + 1) bs)"

definition index_true :: "bool option list \<Rightarrow> int" where
  "index_true bs = index_from 0 bs"

text \<open>
  \<^verbatim>\<open>next(i for i in range(len(py1)) if py1[i] != py2[i])\<close>: the first position where the
  objects differ; \<^verbatim>\<open>IndexError\<close> when \<^verbatim>\<open>py2\<close> ends first, \<^verbatim>\<open>StopIteration\<close> when
  the range is exhausted.
\<close>

fun next_diff :: "int \<Rightarrow> val list \<Rightarrow> val list \<Rightarrow> error + int" where
  "next_diff i [] py2 = Inl StopIteration"
| "next_diff i (x # py1) [] = Inl IndexError"
| "next_diff i (x # py1) (y # py2) =
     (if \<not> py_eq x y then Inr i else next_diff (i + 1) py1 py2)"

subsection \<open>Issues\<close>

text \<open>
  An issue is the dictionary \<^verbatim>\<open>{"type": ..., "message": ...}\<close>. The message is kept
  as the template of its f-string with the interpolated values:
  \<^item> \<open>RowCountMismatch l1 n1 l2 n2\<close>: "Row count mismatch: l1 has n1 rows, l2 has n2 rows";
  \<^item> \<open>AdditionalColumns l cs\<close>: "l has additional columns: cs";
  \<^item> \<open>NoSortableColumn\<close>: "No sortable column found in common columns - cannot compare
    row-by-row";
  \<^item> \<open>DifferencesAt c i\<close>: "Column 'c' has differences (first at row i)";
  \<^item> \<open>Differences c\<close>: "Column 'c' has differences";
  \<^item> \<open>SortingError e\<close>: "Error during sorting/comparison: str(e)".
\<close>

datatype message =
    RowCountMismatch string nat string nat
  | AdditionalColumns string "string list"
  | NoSortableColumn
  | DifferencesAt string int
  | Differences string
  | SortingError error

record issue =
  issue_type :: string
  issue_message :: message

subsection \<open>\<^verbatim>\<open>compare_tables\<close>\<close>

text \<open>
  Lines 72 to 77: the loop over \<^verbatim>\<open>sorted(common_cols)\<close> that looks for the sort column.
  The type is read from \<^verbatim>\<open>table1.schema\<close>; the lookup is outside every \<^verbatim>\<open>try\<close>, so
  its exception leaves \<^verbatim>\<open>compare_tables\<close>.
\<close>

fun find_sort_column :: "table \<Rightarrow> string list \<Rightarrow> error + string option" where
  "find_sort_column table1 [] = Inr None"
| "find_sort_column table1 (col_name # rest) =
     (case schema_field_type table1 col_name of
        Inl e \<Rightarrow> Inl e
      | Inr col_type \<Rightarrow>
          if \<not> is_nested col_type then Inr (Some col_name)
          else find_sort_column table1 rest)"

text \<open>Lines 99 to 104: the two ways of comparing a column, chosen by \<open>col_type\<close>.\<close>

definition columns_equal :: "dtype \<Rightarrow> column \<Rightarrow> column \<Rightarrow> error + bool" where
  "columns_equal col_type col1 col2 =
     (if is_nested col_type then
        (case to_pylist col1 of
           Inl e \<Rightarrow> Inl e
         | Inr py1 \<Rightarrow>
             (case to_pylist col2 of
                Inl e \<Rightarrow> Inl e
              | Inr py2 \<Rightarrow> Inr (py_eq_list py1 py2)))
      else Inr (equals col1 col2))"

text \<open>Lines 111 to 116: the body of the inner \<^verbatim>\<open>try\<close>, which locates the first difference.\<close>

definition first_diff_idx :: "dtype \<Rightarrow> column \<Rightarrow> column \<Rightarrow> error + int" where
  "first_diff_idx col_type col1 col2 =
     (if is_nested col_type then
        (case to_pylist col1 of
           Inl e \<Rightarrow> Inl e
         | Inr py1 \<Rightarrow>
             (case to_pylist col2 of
                Inl e \<Rightarrow> Inl e
              | Inr py2 \<Rightarrow> next_diff 0 py1 py2))
      else
        (case not_equal col1 col2 of
           Inl e \<Rightarrow> Inl e
         | Inr ne \<Rightarrow> Inr (index_true ne)))"

text \<open>
  Lines 96 to 127: the comparison of the two columns of one name under the type
  \<open>col_type\<close>. It returns the issues it appends (none or one), or the exception that leaves
  the round; the bare \<^verbatim>\<open>except\<close> of the inner \<^verbatim>\<open>try\<close> turns every failure of
  \<open>first_diff_idx\<close> into the issue without a row.
\<close>

definition compare_column :: "string \<Rightarrow> dtype \<Rightarrow> column \<Rightarrow> column \<Rightarrow> error + issue list" where
  "compare_column col_name col_type col1 col2 =
     (case columns_equal col_type col1 col2 of
        Inl e \<Rightarrow> Inl e
      | Inr eq \<Rightarrow>
          if \<not> eq then
            (case first_diff_idx col_type col1 col2 of
               Inr i \<Rightarrow>
                 Inr [\<lparr>issue_type = ''column_values'', issue_message = DifferencesAt col_name i\<rparr>]
             | Inl _ \<Rightarrow>
                 Inr [\<lparr>issue_type = ''column_values'', issue_message = Differences col_name\<rparr>])
          else Inr [])"

text \<open>
  Lines 92 to 127: one round of the loop over the common columns. The two columns are
  taken from the sorted tables, the type from the schema of the first sorted table.
\<close>

definition check_column :: "table \<Rightarrow> table \<Rightarrow> string \<Rightarrow> error + issue list" where
  "check_column table1_sorted table2_sorted col_name =
     (case getitem table1_sorted col_name of
        Inl e \<Rightarrow> Inl e
      | Inr col1 \<Rightarrow>
     (case getitem table2_sorted col_name of
        Inl e \<Rightarrow> Inl e
      | Inr col2 \<Rightarrow>
     (case schema_field_type table1_sorted col_name of
        Inl e \<Rightarrow> Inl e
      | Inr col_type \<Rightarrow> compare_column col_name col_type col1 col2)))"

text \<open>
  Lines 91 to 127: the loop. The issue list is mutated in place, so what the rounds before
  an exception appended stays in it: the loop returns the list together with the exception
  that ended it, if any.
\<close>

fun check_columns ::
  "table \<Rightarrow> table \<Rightarrow> string list \<Rightarrow> issue list \<Rightarrow> issue list \<times> error option" where
  "check_columns table1_sorted table2_sorted [] issues = (issues, None)"
| "check_columns table1_sorted table2_sorted (col_name # rest) issues =
     (case check_column table1_sorted table2_sorted col_name of
        Inl e \<Rightarrow> (issues, Some e)
      | Inr new \<Rightarrow> check_columns table1_sorted table2_sorted rest (issues @ new))"

text \<open>
  The two issues of type \<^verbatim>\<open>sorting\<close>: the one of line 80, when no common column
  can be the sort column, and the one of line 129, which carries the exception caught by
  the handler of the outer \<^verbatim>\<open>try\<close> (lines 86 to 132).
\<close>

definition no_sortable_issue :: issue where
  "no_sortable_issue = \<lparr>issue_type = ''sorting'', issue_message = NoSortableColumn\<rparr>"

definition sorting_error :: "error \<Rightarrow> issue" where
  "sorting_error e = \<lparr>issue_type = ''sorting'', issue_message = SortingError e\<rparr>"

definition compare_sorted ::
  "table \<Rightarrow> table \<Rightarrow> string \<Rightarrow> string list \<Rightarrow> issue list \<Rightarrow> issue list" where
  "compare_sorted table1 table2 sort_column cols issues =
     (case sort_by table1 sort_column of
        Inl e \<Rightarrow> issues @ [sorting_error e]
      | Inr table1_sorted \<Rightarrow>
     (case sort_by table2 sort_column of
        Inl e \<Rightarrow> issues @ [sorting_error e]
      | Inr table2_sorted \<Rightarrow>
     (case check_columns table1_sorted table2_sorted cols issues of
        (issues', None) \<Rightarrow> issues'
      | (issues', Some e) \<Rightarrow> issues' @ [sorting_error e])))"

text \<open>Lines 42 to 67: the issues of the row counts and of the column sets.\<close>

definition row_count_issues :: "table \<Rightarrow> table \<Rightarrow> string \<Rightarrow> string \<Rightarrow> issue list" where
  "row_count_issues table1 table2 label1 label2 =
     (if num_rows table1 \<noteq> num_rows table2 then
        [\<lparr>issue_type = ''row_count'',
          issue_message = RowCountMismatch label1 (num_rows table1) label2 (num_rows table2)\<rparr>]
      else [])"

definition column_issues :: "table \<Rightarrow> table \<Rightarrow> string \<Rightarrow> string \<Rightarrow> issue list" where
  "column_issues table1 table2 label1 label2 =
     (let cols1 = set (column_names table1);
          cols2 = set (column_names table2);
          cols_only_in_1 = cols1 - cols2;
          cols_only_in_2 = cols2 - cols1
      in (if cols_only_in_1 \<noteq> {} then
            [\<lparr>issue_type = ''columns'',
              issue_message = AdditionalColumns label1 (sorted_list_of_set cols_only_in_1)\<rparr>]
          else []) @
         (if cols_only_in_2 \<noteq> {} then
            [\<lparr>issue_type = ''columns'',
              issue_message = AdditionalColumns label2 (sorted_list_of_set cols_only_in_2)\<rparr>]
          else []))"

definition common_cols :: "table \<Rightarrow> table \<Rightarrow> string set" where
  "common_cols table1 table2 = set (column_names table1) \<inter> set (column_names table2)"

text \<open>
  The issue list of \<^verbatim>\<open>compare_tables\<close> at line 139, or the exception that left the
  function. \<^verbatim>\<open>sorted\<close> on a set of names is \<open>sorted_list_of_set\<close>: strings in
  lexicographic order of their characters.
\<close>

definition compare_issues :: "table \<Rightarrow> table \<Rightarrow> string \<Rightarrow> string \<Rightarrow> error + issue list" where
  "compare_issues table1 table2 label1 label2 =
     (let issues = row_count_issues table1 table2 label1 label2 @
                   column_issues table1 table2 label1 label2
      in if common_cols table1 table2 \<noteq> {} \<and> num_rows table1 > 0 \<and> num_rows table2 > 0 then
           (case find_sort_column table1 (sorted_list_of_set (common_cols table1 table2)) of
              Inl e \<Rightarrow> Inl e
            | Inr None \<Rightarrow>
                Inr (issues @ [no_sortable_issue])
            | Inr (Some sort_column) \<Rightarrow>
                Inr (compare_sorted table1 table2 sort_column
                       (sorted_list_of_set (common_cols table1 table2)) issues))
         else Inr issues)"

text \<open>Lines 139 to 150: the verdict, \<^verbatim>\<open>True\<close> when there is no issue.\<close>

definition compare_tables :: "table \<Rightarrow> table \<Rightarrow> string \<Rightarrow> string \<Rightarrow> error + bool" where
  "compare_tables table1 table2 label1 label2 =
     (case compare_issues table1 table2 label1 label2 of
        Inl e \<Rightarrow> Inl e
      | Inr issues \<Rightarrow> Inr (issues = []))"

subsection \<open>Tables used as concrete inputs\<close>

text \<open>Single-column tables of \<^verbatim>\<open>int64\<close>: \<^verbatim>\<open>[1,2,3]\<close> and \<^verbatim>\<open>[1,2,99]\<close>.\<close>

definition table_123 :: table where
  "table_123 = \<lparr>num_rows = 3,
     columns = [\<lparr>cname = ''a'', ctype = Int64, cvals = [IntV 1, IntV 2, IntV 3]\<rparr>]\<rparr>"

definition table_1299 :: table where
  "table_1299 = \<lparr>num_rows = 3,
     columns = [\<lparr>cname = ''a'', ctype = Int64, cvals = [IntV 1, IntV 2, IntV 99]\<rparr>]\<rparr>"

text \<open>
  A nested column alone, with two rows and with none; \<^verbatim>\<open>[2,1]\<close> as \<^verbatim>\<open>int64\<close>; and a
  table of three columns of which the first in alphabetical order is nested.
\<close>

definition table_list :: table where
  "table_list = \<lparr>num_rows = 2,
     columns = [\<lparr>cname = ''a'', ctype = ListT Int64, cvals = [ListV [IntV 1], ListV [IntV 2]]\<rparr>]\<rparr>"

definition table_empty :: table where
  "table_empty = \<lparr>num_rows = 0,
     columns = [\<lparr>cname = ''a'', ctype = ListT Int64, cvals = []\<rparr>]\<rparr>"

definition table_21 :: table where
  "table_21 = \<lparr>num_rows = 2,
     columns = [\<lparr>cname = ''a'', ctype = Int64, cvals = [IntV 2, IntV 1]\<rparr>]\<rparr>"

definition table_mixed :: table where
  "table_mixed = \<lparr>num_rows = 2,
     columns = [\<lparr>cname = ''c'', ctype = Utf8, cvals = [StrV ''x'', Null]\<rparr>,
                \<lparr>cname = ''a'', ctype = ListT Int64, cvals = [ListV [IntV 1], ListV []]\<rparr>,
                \<lparr>cname = ''b'', ctype = Int64, cvals = [IntV 2, IntV 1]\<rparr>]\<rparr>"



text \<open>
  \<^verbatim>\<open>[1, None]\<close> and \<^verbatim>\<open>[1, 2]\<close> as \<^verbatim>\<open>int64\<close>; a \<^verbatim>\<open>double\<close> column holding NaN; and
  two tables with the columns \<^verbatim>\<open>a, b, c\<close> and \<^verbatim>\<open>a, b, d\<close>, the second with its rows in
  another order and one other value in \<^verbatim>\<open>b\<close>.
\<close>

definition table_1_null :: table where
  "table_1_null = \<lparr>num_rows = 2,
     columns = [\<lparr>cname = ''a'', ctype = Int64, cvals = [IntV 1, Null]\<rparr>]\<rparr>"

definition table_12 :: table where
  "table_12 = \<lparr>num_rows = 2,
     columns = [\<lparr>cname = ''a'', ctype = Int64, cvals = [IntV 1, IntV 2]\<rparr>]\<rparr>"

definition table_nan :: table where
  "table_nan = \<lparr>num_rows = 1,
     columns = [\<lparr>cname = ''a'', ctype = Float64, cvals = [FloatV FNaN]\<rparr>]\<rparr>"

definition table_abc :: table where
  "table_abc = \<lparr>num_rows = 2,
     columns = [\<lparr>cname = ''a'', ctype = Int64, cvals = [IntV 1, IntV 2]\<rparr>,
                \<lparr>cname = ''b'', ctype = Utf8, cvals = [StrV ''x'', StrV ''y'']\<rparr>,
                \<lparr>cname = ''c'', ctype = Bool, cvals = [BoolV True, BoolV False]\<rparr>]\<rparr>"


text \<open>
  A table with a scalar column and a struct column of two fields both named \<^verbatim>\<open>x\<close>;
  a table of two rows with the columns \<^verbatim>\<open>a, c\<close> and one of three rows with the columns
  \<^verbatim>\<open>a, d\<close> whose \<^verbatim>\<open>a\<close> is a list column; and a table of three rows with the columns
  \<^verbatim>\<open>a, b, d\<close>.
\<close>

definition table_dup_struct :: table where
  "table_dup_struct = \<lparr>num_rows = 1,
     columns = [\<lparr>cname = ''k'', ctype = Int64, cvals = [IntV 1]\<rparr>,
                \<lparr>cname = ''s'', ctype = StructT [(''x'', Int64), (''x'', Int64)],
                 cvals = [StructV [(''x'', IntV 1), (''x'', IntV 2)]]\<rparr>]\<rparr>"

definition table_ac :: table where
  "table_ac = \<lparr>num_rows = 2,
     columns = [\<lparr>cname = ''a'', ctype = Int64, cvals = [IntV 2, IntV 1]\<rparr>,
                \<lparr>cname = ''c'', ctype = Utf8, cvals = [StrV ''x'', StrV ''y'']\<rparr>]\<rparr>"

definition table_list_d :: table where
  "table_list_d = \<lparr>num_rows = 3,
     columns = [\<lparr>cname = ''a'', ctype = ListT Int64,
                 cvals = [ListV [IntV 1], ListV [IntV 2], ListV []]\<rparr>,
                \<lparr>cname = ''d'', ctype = Bool, cvals = [BoolV True, BoolV False, Null]\<rparr>]\<rparr>"

definition table_abd3 :: table where
  "table_abd3 = \<lparr>num_rows = 3,
     columns = [\<lparr>cname = ''a'', ctype = Int64, cvals = [IntV 2, IntV 1, IntV 3]\<rparr>,
                \<lparr>cname = ''b'', ctype = Utf8, cvals = [StrV ''y'', StrV ''z'', Null]\<rparr>,
                \<lparr>cname = ''d'', ctype = Float64, cvals = [FloatV (FNum 1), FloatV FNaN, Null]\<rparr>]\<rparr>"

text \<open>The last table sorted by its column \<^verbatim>\<open>a\<close>.\<close>

definition table_abd3_sorted :: table where
  "table_abd3_sorted = \<lparr>num_rows = 3,
     columns = [\<lparr>cname = ''a'', ctype = Int64, cvals = [IntV 1, IntV 2, IntV 3]\<rparr>,
                \<lparr>cname = ''b'', ctype = Utf8, cvals = [StrV ''z'', StrV ''y'', Null]\<rparr>,
                \<lparr>cname = ''d'', ctype = Float64, cvals = [FloatV FNaN, FloatV (FNum 1), Null]\<rparr>]\<rparr>"

subsection \<open>Notions used in the statements\<close>

text \<open>The declared type of a column of a table is nested, or is scalar.\<close>

definition column_nested :: "table \<Rightarrow> string \<Rightarrow> bool" where
  "column_nested t c = (case schema_field_type t c of Inl e \<Rightarrow> False | Inr ty \<Rightarrow> is_nested ty)"

definition column_scalar :: "table \<Rightarrow> string \<Rightarrow> bool" where
  "column_scalar t c = (case schema_field_type t c of Inl e \<Rightarrow> False | Inr ty \<Rightarrow> \<not> is_nested ty)"

text \<open>A value, and a table, that holds no NaN.\<close>

fun nan_free :: "val \<Rightarrow> bool" where
  "nan_free (FloatV FNaN) = False"
| "nan_free (ListV xs) = list_all nan_free xs"
| "nan_free (StructV kvs) = list_all nan_free (map snd kvs)"
| "nan_free _ = True"

definition table_nan_free :: "table \<Rightarrow> bool" where
  "table_nan_free t = list_all (\<lambda>c. list_all nan_free (cvals c)) (columns t)"

text \<open>A table in which no struct value has two fields of the same name.\<close>

definition no_duplicate_fields :: "table \<Rightarrow> bool" where
  "no_duplicate_fields t = list_all (\<lambda>c. list_all py_convertible (cvals c)) (columns t)"

text \<open>
  Two columns mismatch under a type: as lists of Python objects when the type is nested,
  by \<^verbatim>\<open>equals\<close> when it is scalar.
\<close>

definition columns_differ :: "dtype \<Rightarrow> column \<Rightarrow> column \<Rightarrow> bool" where
  "columns_differ ty col1 col2 =
     (if is_nested ty then \<not> py_eq_list (cvals col1) (cvals col2) else \<not> equals col1 col2)"

text \<open>The copy of a table with the row at position \<open>i\<close> removed.\<close>

definition remove_row :: "nat \<Rightarrow> table \<Rightarrow> table" where
  "remove_row i t =
     \<lparr>num_rows = num_rows t - 1,
      columns = map (\<lambda>c. c\<lparr>cvals := take i (cvals c) @ drop (Suc i) (cvals c)\<rparr>) (columns t)\<rparr>"

text \<open>
  The issues that lines 70 to 132 add to the list: what the row-by-row stage finds by
  itself, whatever the list held before.
\<close>

definition row_by_row_issues :: "table \<Rightarrow> table \<Rightarrow> error + issue list" where
  "row_by_row_issues table1 table2 =
     (if common_cols table1 table2 \<noteq> {} \<and> num_rows table1 > 0 \<and> num_rows table2 > 0 then
        (case find_sort_column table1 (sorted_list_of_set (common_cols table1 table2)) of
           Inl e \<Rightarrow> Inl e
         | Inr None \<Rightarrow> Inr [no_sortable_issue]
         | Inr (Some sort_column) \<Rightarrow>
             Inr (compare_sorted table1 table2 sort_column
                    (sorted_list_of_set (common_cols table1 table2)) []))
      else Inr [])"


section \<open>Properties of the comparator\<close>

subsection \<open>Lookups in a well-formed table\<close>

lemma filter_key_single:
  "distinct (map f xs) \<Longrightarrow> x \<in> set xs \<Longrightarrow> filter (\<lambda>y. f y = f x) xs = [x]"
proof (induction xs)
  case Nil
  then show ?case by simp
next
  case (Cons a xs)
  show ?case
  proof (cases "x = a")
    case True
    from Cons.prems have "\<forall>y\<in>set xs. f y \<noteq> f a" by (auto simp: image_iff)
    then have "filter (\<lambda>y. f y = f a) xs = []" by (simp add: filter_empty_conv)
    with True show ?thesis by simp
  next
    case False
    with Cons.prems have in_xs: "x \<in> set xs" by simp
    with Cons.prems have "f a \<noteq> f x" by (auto simp: image_iff)
    with Cons.IH Cons.prems in_xs show ?thesis by simp
  qed
qed

lemma wf_lookup:
  assumes "wf_table t" "n \<in> set (column_names t)"
  shows "\<exists>c\<in>set (columns t). cname c = n \<and> filter (\<lambda>x. cname x = n) (columns t) = [c]"
proof -
  from assms(2) obtain c where c: "c \<in> set (columns t)" "cname c = n"
    by (auto simp: column_names_def)
  from assms(1) have "distinct (map cname (columns t))"
    by (simp add: wf_table_def column_names_def)
  from filter_key_single[OF this c(1)] c show ?thesis by auto
qed

lemma wf_schema_field_type:
  assumes "wf_table t" "n \<in> set (column_names t)"
  shows "\<exists>ty. schema_field_type t n = Inr ty"
  using wf_lookup[OF assms] by (auto simp: schema_field_type_def)

lemma find_sort_column_total:
  "\<forall>c\<in>set cs. \<exists>ty. schema_field_type t c = Inr ty \<Longrightarrow> \<exists>r. find_sort_column t cs = Inr r"
  by (induction cs) auto

lemma finite_common_cols: "finite (common_cols t1 t2)"
  by (simp add: common_cols_def)

lemma wf_find_sort_column:
  assumes "wf_table table1"
  shows "\<exists>r. find_sort_column table1 (sorted_list_of_set (common_cols table1 table2)) = Inr r"
proof -
  have "\<forall>c\<in>set (sorted_list_of_set (common_cols table1 table2)).
          \<exists>ty. schema_field_type table1 c = Inr ty"
    using wf_schema_field_type[OF assms]
    by (simp add: finite_common_cols) (simp add: common_cols_def)
  from find_sort_column_total[OF this] show ?thesis .
qed

lemma wf_table_123: "wf_table table_123"
  by (simp add: table_123_def wf_table_def column_names_def)

subsection \<open>The issues before the row-by-row comparison\<close>

lemma pre_issue_types:
  "i \<in> set (row_count_issues t1 t2 l1 l2 @ column_issues t1 t2 l1 l2) \<Longrightarrow>
     issue_type i = ''row_count'' \<or> issue_type i = ''columns''"
  by (auto simp: row_count_issues_def column_issues_def Let_def split: if_splits)

subsection \<open>The choice of the sort column\<close>

lemma find_sort_column_None:
  "\<forall>c\<in>set cs. column_nested t c \<Longrightarrow> find_sort_column t cs = Inr None"
  by (induction cs) (auto simp: column_nested_def split: sum.splits)

lemma find_sort_column_first:
  assumes "sorted cs" "\<forall>c\<in>set cs. \<exists>ty. schema_field_type t c = Inr ty"
  shows "case find_sort_column t cs of
           Inl e \<Rightarrow> False
         | Inr None \<Rightarrow> \<forall>c\<in>set cs. column_nested t c
         | Inr (Some k) \<Rightarrow> k \<in> set cs \<and> column_scalar t k \<and> (\<forall>c\<in>set cs. c < k \<longrightarrow> column_nested t c)"
  using assms
proof (induction cs)
  case Nil
  then show ?case by simp
next
  case (Cons a cs)
  from Cons.prems obtain ty where ty: "schema_field_type t a = Inr ty" by auto
  show ?case
  proof (cases "is_nested ty")
    case False
    from Cons.prems(1) have "\<forall>c\<in>set cs. \<not> c < a" by auto
    with False ty show ?thesis by (simp add: column_scalar_def)
  next
    case True
    from Cons.prems have "sorted cs" "\<forall>c\<in>set cs. \<exists>ty. schema_field_type t c = Inr ty" by auto
    from Cons.IH[OF this] True ty show ?thesis
      by (auto simp: column_nested_def split: sum.splits option.splits)
  qed
qed

text \<open>
  C4. When both tables have a row and share a column, the sort column is the first common
  column, in alphabetical order, whose declared type (in the first table) is scalar: it is
  a scalar common column and every common column before it is nested. It is the column
  handed to the sorting stage. When every common column is nested there is no sort column.
\<close>

theorem sort_column_choice:
  assumes "wf_table table1"
    and "common_cols table1 table2 \<noteq> {}" and "0 < num_rows table1" and "0 < num_rows table2"
  shows "case find_sort_column table1 (sorted_list_of_set (common_cols table1 table2)) of
           Inl e \<Rightarrow> False
         | Inr None \<Rightarrow>
             (\<forall>c\<in>common_cols table1 table2. column_nested table1 c) \<and>
             compare_issues table1 table2 label1 label2 =
               Inr (row_count_issues table1 table2 label1 label2 @
                    column_issues table1 table2 label1 label2 @ [no_sortable_issue])
         | Inr (Some k) \<Rightarrow>
             k \<in> common_cols table1 table2 \<and> column_scalar table1 k \<and>
             (\<forall>c\<in>common_cols table1 table2. c < k \<longrightarrow> column_nested table1 c) \<and>
             compare_issues table1 table2 label1 label2 =
               Inr (compare_sorted table1 table2 k (sorted_list_of_set (common_cols table1 table2))
                      (row_count_issues table1 table2 label1 label2 @
                       column_issues table1 table2 label1 label2))"
proof -
  let ?cs = "sorted_list_of_set (common_cols table1 table2)"
  have "\<forall>c\<in>set ?cs. \<exists>ty. schema_field_type table1 c = Inr ty"
    using wf_schema_field_type[OF assms(1)]
    by (simp add: finite_common_cols) (simp add: common_cols_def)
  from find_sort_column_first[OF _ this] have first:
    "case find_sort_column table1 ?cs of
           Inl e \<Rightarrow> False
         | Inr None \<Rightarrow> \<forall>c\<in>set ?cs. column_nested table1 c
         | Inr (Some k) \<Rightarrow> k \<in> set ?cs \<and> column_scalar table1 k \<and>
             (\<forall>c\<in>set ?cs. c < k \<longrightarrow> column_nested table1 c)"
    by simp
  show ?thesis
  proof (cases "find_sort_column table1 ?cs")
    case (Inl e)
    with first show ?thesis by simp
  next
    case (Inr r)
    show ?thesis
    proof (cases r)
      case None
      with Inr first assms(2-4) show ?thesis
        by (simp add: finite_common_cols compare_issues_def)
    next
      case (Some k)
      with Inr first assms(2-4) show ?thesis
        by (simp add: finite_common_cols compare_issues_def)
    qed
  qed
qed

lemma wf_table_mixed: "wf_table table_mixed"
  by (simp add: table_mixed_def wf_table_def column_names_def)

lemma common_table_mixed: "common_cols table_mixed table_mixed = {''a'', ''b'', ''c''}"
  by (auto simp: common_cols_def column_names_def table_mixed_def)

lemma sorted_abc: "sorted_list_of_set {''a'', ''b'', ''c''} = [''a'', ''b'', ''c'']"
  by code_simp

lemma find_sort_column_mixed:
  "find_sort_column table_mixed [''a'', ''b'', ''c''] = Inr (Some ''b'')"
  by (simp add: schema_field_type_def table_mixed_def)

theorem sort_column_choice_witness:
  "wf_table table_mixed \<and> common_cols table_mixed table_mixed \<noteq> {} \<and> 0 < num_rows table_mixed \<and>
   find_sort_column table_mixed (sorted_list_of_set (common_cols table_mixed table_mixed)) =
     Inr (Some ''b'') \<and>
   column_scalar table_mixed ''b'' \<and> column_nested table_mixed ''a'' \<and>
   compare_issues table_mixed table_mixed ''Table 1'' ''Table 2'' =
     Inr (compare_sorted table_mixed table_mixed ''b'' [''a'', ''b'', ''c'']
            (row_count_issues table_mixed table_mixed ''Table 1'' ''Table 2'' @
             column_issues table_mixed table_mixed ''Table 1'' ''Table 2''))"
proof -
  have ne: "common_cols table_mixed table_mixed \<noteq> {}" by (simp add: common_table_mixed)
  have n: "0 < num_rows table_mixed" by (simp add: table_mixed_def)
  have k: "find_sort_column table_mixed (sorted_list_of_set (common_cols table_mixed table_mixed)) =
      Inr (Some ''b'')"
    by (simp only: common_table_mixed sorted_abc find_sort_column_mixed)
  have lt: "''a'' < ''b''" by code_simp
  from sort_column_choice[OF wf_table_mixed ne n n, of "''Table 1''" "''Table 2''"] k lt
    wf_table_mixed ne n
  show ?thesis by (simp add: common_table_mixed sorted_abc)
qed

subsection \<open>No sortable column, or nothing to compare row by row\<close>

text \<open>
  C6. When both tables have a row and share a column, and every common column is nested
  (in the first table's schema), the row-by-row comparison is skipped: after the issues of
  the row counts and of the column sets comes the one issue that says no sortable column
  was found. When there is no common column, or a table has no row, the issue list is left
  as the first two checks made it. Those checks produce issues of the types
  \<^verbatim>\<open>row_count\<close> and \<^verbatim>\<open>columns\<close> only, so in both cases there is no issue of a column's
  values, and in the second none of sorting. The issue that no sortable column was found
  has the type \<^verbatim>\<open>sorting\<close> and the message of line 82.
\<close>

theorem unsortable_schema:
  "(common_cols table1 table2 \<noteq> {} \<and> 0 < num_rows table1 \<and> 0 < num_rows table2 \<and>
      (\<forall>c\<in>common_cols table1 table2. column_nested table1 c) \<longrightarrow>
      compare_issues table1 table2 label1 label2 =
        Inr (row_count_issues table1 table2 label1 label2 @
             column_issues table1 table2 label1 label2 @ [no_sortable_issue])) \<and>
   (common_cols table1 table2 = {} \<or> num_rows table1 = 0 \<or> num_rows table2 = 0 \<longrightarrow>
      compare_issues table1 table2 label1 label2 =
        Inr (row_count_issues table1 table2 label1 label2 @
             column_issues table1 table2 label1 label2)) \<and>
   (\<forall>i\<in>set (row_count_issues table1 table2 label1 label2 @
              column_issues table1 table2 label1 label2).
      issue_type i = ''row_count'' \<or> issue_type i = ''columns'') \<and>
   no_sortable_issue = \<lparr>issue_type = ''sorting'', issue_message = NoSortableColumn\<rparr>"
proof (intro conjI impI)
  show "no_sortable_issue = \<lparr>issue_type = ''sorting'', issue_message = NoSortableColumn\<rparr>"
    by (simp add: no_sortable_issue_def)
next
  assume a: "common_cols table1 table2 \<noteq> {} \<and> 0 < num_rows table1 \<and> 0 < num_rows table2 \<and>
      (\<forall>c\<in>common_cols table1 table2. column_nested table1 c)"
  then have "\<forall>c\<in>set (sorted_list_of_set (common_cols table1 table2)). column_nested table1 c"
    by (simp add: finite_common_cols)
  from find_sort_column_None[OF this] a
  show "compare_issues table1 table2 label1 label2 =
        Inr (row_count_issues table1 table2 label1 label2 @
             column_issues table1 table2 label1 label2 @ [no_sortable_issue])"
    by (simp add: compare_issues_def)
next
  assume "common_cols table1 table2 = {} \<or> num_rows table1 = 0 \<or> num_rows table2 = 0"
  then show "compare_issues table1 table2 label1 label2 =
        Inr (row_count_issues table1 table2 label1 label2 @
             column_issues table1 table2 label1 label2)"
    by (auto simp: compare_issues_def)
next
  show "\<forall>i\<in>set (row_count_issues table1 table2 label1 label2 @
              column_issues table1 table2 label1 label2).
      issue_type i = ''row_count'' \<or> issue_type i = ''columns''"
    using pre_issue_types by blast
qed

lemma common_table_list: "common_cols table_list table_list = {''a''}"
  by (simp add: common_cols_def column_names_def table_list_def)

theorem unsortable_schema_witness:
  "compare_issues table_list table_list ''Table 1'' ''Table 2'' =
     Inr [\<lparr>issue_type = ''sorting'', issue_message = NoSortableColumn\<rparr>] \<and>
   compare_issues table_list table_empty ''Table 1'' ''Table 2'' =
     Inr [\<lparr>issue_type = ''row_count'',
           issue_message = RowCountMismatch ''Table 1'' 2 ''Table 2'' 0\<rparr>]"
proof -
  have n: "column_nested table_list ''a''"
    by (simp add: column_nested_def schema_field_type_def table_list_def)
  have r: "row_count_issues table_list table_list ''Table 1'' ''Table 2'' = []"
    by (simp add: row_count_issues_def)
  have c: "column_issues table_list table_list ''Table 1'' ''Table 2'' = []"
    by (simp add: column_issues_def)
  have r2: "row_count_issues table_list table_empty ''Table 1'' ''Table 2'' =
     [\<lparr>issue_type = ''row_count'',
           issue_message = RowCountMismatch ''Table 1'' 2 ''Table 2'' 0\<rparr>]"
    by (simp add: row_count_issues_def table_list_def table_empty_def)
  have c2: "column_issues table_list table_empty ''Table 1'' ''Table 2'' = []"
    by (simp add: column_issues_def column_names_def table_list_def table_empty_def)
  have z: "num_rows table_empty = 0" "0 < num_rows table_list"
    by (simp_all add: table_empty_def table_list_def)
  from unsortable_schema[of table_list table_list "''Table 1''" "''Table 2''"]
    unsortable_schema[of table_list table_empty "''Table 1''" "''Table 2''"]
    n r c r2 c2 z common_table_list
  show ?thesis by simp
qed

subsection \<open>The column types come from the first table\<close>

lemma sort_by_columns:
  assumes "sort_by t k = Inr s"
  shows "\<exists>idx. columns s = map (\<lambda>c. c\<lparr>cvals := map (\<lambda>i. cvals c ! i) idx\<rparr>) (columns t)"
  using assms
  by (auto simp: sort_by_def take_rows_def split: list.splits if_splits)

lemma filter_cname_map:
  "filter (\<lambda>c. cname c = n) (map (\<lambda>c. c\<lparr>cvals := f c\<rparr>) cs) =
     map (\<lambda>c. c\<lparr>cvals := f c\<rparr>) (filter (\<lambda>c. cname c = n) cs)"
  by (induction cs) auto

lemma sort_by_schema:
  assumes "sort_by t k = Inr s"
  shows "schema_field_type s c = schema_field_type t c"
proof -
  from sort_by_columns[OF assms] obtain idx where
    "columns s = map (\<lambda>c. c\<lparr>cvals := map (\<lambda>i. cvals c ! i) idx\<rparr>) (columns t)" ..
  then show ?thesis
    by (simp add: schema_field_type_def filter_cname_map split: list.splits)
qed





subsection \<open>The row of the first difference\<close>

text \<open>
  C3. For the columns \<^verbatim>\<open>[1,2,3]\<close> and \<^verbatim>\<open>[1,2,99]\<close> the one issue names row 2. For the
  columns \<^verbatim>\<open>[1, None]\<close> and \<^verbatim>\<open>[1, 2]\<close>, which differ at row 1 in null-ness only, the
  one issue names row \<open>-1\<close>: \<^verbatim>\<open>pc.not_equal\<close> is null where a side is null, and
  \<^verbatim>\<open>pc.index\<close> finds no \<^verbatim>\<open>True\<close>.
\<close>

theorem first_difference_row:
  "compare_issues table_123 table_1299 ''Table 1'' ''Table 2'' =
     Inr [\<lparr>issue_type = ''column_values'', issue_message = DifferencesAt ''a'' 2\<rparr>] \<and>
   sort_by table_1_null ''a'' = Inr table_1_null \<and>
   sort_by table_12 ''a'' = Inr table_12 \<and>
   compare_issues table_1_null table_12 ''Table 1'' ''Table 2'' =
     Inr [\<lparr>issue_type = ''column_values'', issue_message = DifferencesAt ''a'' (- 1)\<rparr>]"
  unfolding table_123_def table_1299_def table_1_null_def table_12_def
  by code_simp

subsection \<open>Equality of a value with itself\<close>

lemma py_eq_list_refl: "\<forall>x\<in>set xs. py_eq x x \<Longrightarrow> py_eq_list xs xs"
  by (induction xs) auto

lemma py_eq_items_sub:
  "distinct (map fst b) \<Longrightarrow> set a \<subseteq> set b \<Longrightarrow> \<forall>kv\<in>set a. py_eq (snd kv) (snd kv) \<Longrightarrow>
     py_eq_items a b"
  by (induction a) auto

lemma py_eq_refl: "nan_free v \<Longrightarrow> py_convertible v \<Longrightarrow> py_eq v v"
proof (induction v)
  case (ListV xs)
  then have "\<forall>x\<in>set xs. py_eq x x" by (auto simp: list_all_iff)
  then show ?case by (simp add: py_eq_list_refl)
next
  case (StructV kvs)
  then have "\<forall>kv\<in>set kvs. py_eq (snd kv) (snd kv)"
    by (auto simp: list_all_iff snds.simps)
  with StructV.prems show ?case by (simp add: py_eq_items_sub)
next
  case (FloatV x)
  then show ?case by (cases x) auto
qed auto

lemma py_eq_list_all2: "py_eq_list xs ys = list_all2 py_eq xs ys"
  by (induction xs ys rule: list_induct2') auto

lemma arrow_eq_refl: "\<not> is_nested ty \<Longrightarrow> conforms ty v \<Longrightarrow> nan_free v \<Longrightarrow> arrow_eq v v"
  by (cases ty; cases v; simp) (rename_tac x, case_tac x, auto)

lemma arrow_eq_py_eq: "arrow_eq x y \<Longrightarrow> py_eq x y"
  by (induction x y rule: arrow_eq.induct) auto

subsection \<open>Sorting a well-formed table\<close>

lemma set_insert_idx: "set (insert_idx ks i js) = insert i (set js)"
  by (induction js) auto

lemma set_foldr_insert_idx: "set (foldr (insert_idx ks) xs []) = set xs"
  by (induction xs) (auto simp: set_insert_idx)

lemma set_sort_indices: "set (sort_indices ty vs) = {0..<length vs}"
  by (simp add: sort_indices_def set_foldr_insert_idx)

lemma length_insert_idx: "length (insert_idx ks i js) = Suc (length js)"
  by (induction js) auto

lemma length_foldr_insert_idx: "length (foldr (insert_idx ks) xs []) = length xs"
  by (induction xs) (auto simp: length_insert_idx)

lemma length_sort_indices: "length (sort_indices ty vs) = length vs"
  by (simp add: sort_indices_def length_foldr_insert_idx)

lemma wf_column_length: "wf_table t \<Longrightarrow> c \<in> set (columns t) \<Longrightarrow> length (cvals c) = num_rows t"
  by (auto simp: wf_table_def list_all_iff)

lemma wf_sort_by:
  assumes "wf_table t" and "k \<in> set (column_names t)" and "column_scalar t k"
  shows "\<exists>idx. set idx \<subseteq> {0..<num_rows t} \<and> length idx = num_rows t \<and>
           sort_by t k =
             Inr \<lparr>num_rows = length idx,
                  columns = map (\<lambda>c. c\<lparr>cvals := map (\<lambda>i. cvals c ! i) idx\<rparr>) (columns t)\<rparr>"
proof -
  from wf_lookup[OF assms(1,2)] obtain key where key: "key \<in> set (columns t)"
    "filter (\<lambda>x. cname x = k) (columns t) = [key]" by auto
  from key(2) assms(3) have "\<not> is_nested (ctype key)"
    by (simp add: column_scalar_def schema_field_type_def)
  then have scalar: "sortable (ctype key)" by (cases "ctype key") simp_all
  let ?idx = "sort_indices (ctype key) (cvals key)"
  from wf_column_length[OF assms(1) key(1)] have range: "set ?idx \<subseteq> {0..<num_rows t}"
    and len: "length ?idx = num_rows t"
    by (simp_all add: set_sort_indices length_sort_indices)
  have "list_all (\<lambda>c. list_all (\<lambda>i. i < length (cvals c)) ?idx) (columns t)"
    using range wf_column_length[OF assms(1)] by (auto simp: list_all_iff)
  with key(2) scalar have "sort_by t k =
     Inr \<lparr>num_rows = length ?idx,
          columns = map (\<lambda>c. c\<lparr>cvals := map (\<lambda>i. cvals c ! i) ?idx\<rparr>) (columns t)\<rparr>"
    by (simp add: sort_by_def take_rows_def)
  with range len show ?thesis by blast
qed

lemma wf_getitem:
  assumes "wf_table t" "n \<in> set (column_names t)"
  shows "\<exists>c\<in>set (columns t). cname c = n \<and> getitem t n = Inr c \<and> schema_field_type t n = Inr (ctype c)"
  using wf_lookup[OF assms] by (auto simp: getitem_def schema_field_type_def)

subsection \<open>The loop over the common columns\<close>

lemma check_columns_all_equal:
  "\<forall>c\<in>set cs. check_column s1 s2 c = Inr [] \<Longrightarrow> check_columns s1 s2 cs issues = (issues, None)"
  by (induction cs arbitrary: issues) auto

lemma compare_column_shape:
  assumes "compare_column c ty col1 col2 = Inr new"
  shows "new = [] \<and> columns_equal ty col1 col2 = Inr True \<or>
         (\<exists>i. new = [\<lparr>issue_type = ''column_values'', issue_message = DifferencesAt c i\<rparr>]) \<or>
         new = [\<lparr>issue_type = ''column_values'', issue_message = Differences c\<rparr>]"
  using assms
  by (auto simp: compare_column_def split: sum.splits if_splits)

lemma check_column_shape:
  assumes "check_column s1 s2 c = Inr new"
  shows "new = [] \<or>
         (\<exists>i. new = [\<lparr>issue_type = ''column_values'', issue_message = DifferencesAt c i\<rparr>]) \<or>
         new = [\<lparr>issue_type = ''column_values'', issue_message = Differences c\<rparr>]"
  using assms compare_column_shape
  by (fastforce simp: check_column_def split: sum.splits)

lemma check_columns_shape:
  "check_columns s1 s2 cs issues = (res, x) \<Longrightarrow>
     \<exists>new. res = issues @ new \<and>
       (\<forall>i\<in>set new. issue_type i = ''column_values'' \<and>
          (\<exists>c\<in>set cs. issue_message i = Differences c \<or> (\<exists>n. issue_message i = DifferencesAt c n)))"
proof (induction cs arbitrary: issues)
  case Nil
  then show ?case by simp
next
  case (Cons c cs)
  show ?case
  proof (cases "check_column s1 s2 c")
    case (Inl e)
    with Cons.prems show ?thesis by simp
  next
    case (Inr new)
    with Cons.prems have "check_columns s1 s2 cs (issues @ new) = (res, x)" by simp
    from Cons.IH[OF this] obtain new' where new': "res = (issues @ new) @ new'"
      "\<forall>i\<in>set new'. issue_type i = ''column_values'' \<and>
          (\<exists>c\<in>set cs. issue_message i = Differences c \<or> (\<exists>n. issue_message i = DifferencesAt c n))"
      by blast
    from check_column_shape[OF Inr] have
      "\<forall>i\<in>set new. issue_type i = ''column_values'' \<and>
          (issue_message i = Differences c \<or> (\<exists>n. issue_message i = DifferencesAt c n))"
      by auto
    with new' have "res = issues @ (new @ new') \<and>
       (\<forall>i\<in>set (new @ new'). issue_type i = ''column_values'' \<and>
          (\<exists>c\<in>set (c # cs). issue_message i = Differences c \<or>
             (\<exists>n. issue_message i = DifferencesAt c n)))"
      by auto
    then show ?thesis by blast
  qed
qed

lemma compare_sorted_shape:
  "\<exists>new. compare_sorted t1 t2 k cs issues = issues @ new \<and>
     (\<forall>i\<in>set new. issue_type i = ''sorting'' \<or>
        issue_type i = ''column_values'' \<and>
          (\<exists>c\<in>set cs. issue_message i = Differences c \<or> (\<exists>n. issue_message i = DifferencesAt c n)))"
proof (cases "sort_by t1 k")
  case (Inl e)
  then show ?thesis by (simp add: compare_sorted_def sorting_error_def)
next
  case s1: (Inr s1)
  show ?thesis
  proof (cases "sort_by t2 k")
    case (Inl e)
    with s1 show ?thesis by (simp add: compare_sorted_def sorting_error_def)
  next
    case s2: (Inr s2)
    obtain res x where r: "check_columns s1 s2 cs issues = (res, x)" by (cases "check_columns s1 s2 cs issues")
    from check_columns_shape[OF r] obtain new where new: "res = issues @ new"
      "\<forall>i\<in>set new. issue_type i = ''column_values'' \<and>
          (\<exists>c\<in>set cs. issue_message i = Differences c \<or> (\<exists>n. issue_message i = DifferencesAt c n))"
      by blast
    show ?thesis
    proof (cases x)
      case None
      with s1 s2 r new show ?thesis by (auto simp: compare_sorted_def)
    next
      case (Some e)
      with s1 s2 r new have "compare_sorted t1 t2 k cs issues = issues @ (new @ [sorting_error e])"
        by (simp add: compare_sorted_def)
      moreover from new(2) have "\<forall>i\<in>set (new @ [sorting_error e]). issue_type i = ''sorting'' \<or>
        issue_type i = ''column_values'' \<and>
          (\<exists>c\<in>set cs. issue_message i = Differences c \<or> (\<exists>n. issue_message i = DifferencesAt c n))"
        by (auto simp: sorting_error_def)
      ultimately show ?thesis by blast
    qed
  qed
qed

subsection \<open>A table compared with itself\<close>

lemma columns_equal_self:
  assumes "list_all (conforms (ctype col)) (cvals col)" and "list_all nan_free (cvals col)"
    and conv: "list_all py_convertible (cvals col)"
  shows "columns_equal (ctype col) col col = Inr True"
proof (cases "is_nested (ctype col)")
  case True
  from conv assms(2) have "\<forall>x\<in>set (cvals col). py_eq x x"
    by (auto simp: list_all_iff py_eq_refl)
  then have "py_eq_list (cvals col) (cvals col)" by (rule py_eq_list_refl)
  with True conv show ?thesis by (simp add: columns_equal_def to_pylist_def)
next
  case False
  with assms have "\<forall>x\<in>set (cvals col). arrow_eq x x"
    by (auto simp: list_all_iff arrow_eq_refl)
  then have "list_all2 arrow_eq (cvals col) (cvals col)" by (simp add: list_all2_same)
  with False show ?thesis by (simp add: columns_equal_def equals_def)
qed

lemma compare_column_self:
  assumes "list_all (conforms (ctype col)) (cvals col)" and "list_all nan_free (cvals col)"
    and "list_all py_convertible (cvals col)"
  shows "compare_column n (ctype col) col col = Inr []"
  using columns_equal_self[OF assms] by (simp add: compare_column_def)

lemma getitem_columns_map:
  assumes "columns s = map (\<lambda>c. c\<lparr>cvals := f c\<rparr>) (columns t)"
  shows "getitem s n = (case getitem t n of Inl e \<Rightarrow> Inl e | Inr c \<Rightarrow> Inr (c\<lparr>cvals := f c\<rparr>))"
  by (simp add: getitem_def assms filter_cname_map split: list.splits)

lemma scalar_column_found:
  assumes "wf_table t" and "c \<in> set (columns t)" and "\<not> is_nested (ctype c)"
  shows "\<not> column_nested t (cname c)"
proof -
  from assms(1) have "distinct (map cname (columns t))"
    by (simp add: wf_table_def column_names_def)
  from filter_key_single[OF this assms(2)] assms(3) show ?thesis
    by (simp add: column_nested_def schema_field_type_def)
qed

lemma check_column_self:
  assumes wf: "wf_table t" and nf: "table_nan_free t" and nd: "no_duplicate_fields t"
    and n: "n \<in> set (column_names t)"
    and idx: "set idx \<subseteq> {0..<num_rows t}"
    and s: "sort_by t k = Inr s"
    and cols: "columns s = map (\<lambda>c. c\<lparr>cvals := map (\<lambda>i. cvals c ! i) idx\<rparr>) (columns t)"
  shows "check_column s s n = Inr []"
proof -
  from wf_getitem[OF wf n] obtain c where c: "c \<in> set (columns t)" "getitem t n = Inr c"
    "schema_field_type t n = Inr (ctype c)" by blast
  let ?c = "c\<lparr>cvals := map (\<lambda>i. cvals c ! i) idx\<rparr>"
  from getitem_columns_map[OF cols, of n] c(2) have g: "getitem s n = Inr ?c" by simp
  from sort_by_schema[OF s, of n] c(3) have ty: "schema_field_type s n = Inr (ctype c)" by simp
  from wf_column_length[OF wf c(1)] idx have sub: "set (cvals ?c) \<subseteq> set (cvals c)" by auto
  from wf c(1) have "list_all (conforms (ctype c)) (cvals c)"
    by (auto simp: wf_table_def list_all_iff)
  with sub have 1: "list_all (conforms (ctype ?c)) (cvals ?c)" by (auto simp: list_all_iff)
  from nf c(1) have "list_all nan_free (cvals c)" by (auto simp: table_nan_free_def list_all_iff)
  with sub have 2: "list_all nan_free (cvals ?c)" by (auto simp: list_all_iff)
  from nd c(1) have "list_all py_convertible (cvals c)"
    by (auto simp: no_duplicate_fields_def list_all_iff)
  with sub have 3: "list_all py_convertible (cvals ?c)" by (auto simp: list_all_iff)
  from compare_column_self[OF 1 2 3, of n] have "compare_column n (ctype c) ?c ?c = Inr []" by simp
  with g ty show ?thesis by (simp add: check_column_def)
qed

lemma compare_issues_self_pre:
  "row_count_issues t t l1 l2 @ column_issues t t l1 l2 = []"
  by (simp add: row_count_issues_def column_issues_def)

lemma wf_sort_column_first:
  assumes "wf_table table1"
  shows "case find_sort_column table1 (sorted_list_of_set (common_cols table1 table2)) of
           Inl e \<Rightarrow> False
         | Inr None \<Rightarrow> \<forall>c\<in>common_cols table1 table2. column_nested table1 c
         | Inr (Some k) \<Rightarrow> k \<in> common_cols table1 table2 \<and> column_scalar table1 k \<and>
             (\<forall>c\<in>common_cols table1 table2. c < k \<longrightarrow> column_nested table1 c)"
proof -
  let ?cs = "sorted_list_of_set (common_cols table1 table2)"
  have "\<forall>c\<in>set ?cs. \<exists>ty. schema_field_type table1 c = Inr ty"
    using wf_schema_field_type[OF assms]
    by (simp add: finite_common_cols) (simp add: common_cols_def)
  from find_sort_column_first[OF _ this] show ?thesis
    by (auto simp: finite_common_cols split: sum.splits option.splits)
qed

text \<open>
  C7, as amended. A table with unique column names whose columns all hold \<open>num_rows\<close>
  values of their declared type, that holds no NaN and no struct value with two fields of
  the same name, and that has no row, or no column, or at least one column of scalar type,
  compared with itself gives no issue and the verdict \<^verbatim>\<open>True\<close>.
\<close>

theorem compare_self:
  assumes wf: "wf_table t" and nf: "table_nan_free t" and nd: "no_duplicate_fields t"
    and sc: "num_rows t = 0 \<or> columns t = [] \<or> (\<exists>c\<in>set (columns t). \<not> is_nested (ctype c))"
  shows "compare_issues t t label1 label2 = Inr [] \<and> compare_tables t t label1 label2 = Inr True"
proof -
  have "compare_issues t t label1 label2 = Inr []"
  proof (cases "common_cols t t \<noteq> {} \<and> 0 < num_rows t")
    case False
    then show ?thesis by (auto simp: compare_issues_def compare_issues_self_pre)
  next
    case True
    let ?cs = "sorted_list_of_set (common_cols t t)"
    have names: "set ?cs = set (column_names t)"
      by (simp add: finite_common_cols) (simp add: common_cols_def)
    from True have "columns t \<noteq> []" by (auto simp: common_cols_def column_names_def)
    with True sc obtain c where c: "c \<in> set (columns t)" "\<not> is_nested (ctype c)" by auto
    from scalar_column_found[OF wf c] c(1) have not_all:
      "\<not> (\<forall>c\<in>common_cols t t. column_nested t c)"
      by (auto simp: common_cols_def column_names_def)
    from True have guard: "common_cols t t \<noteq> {}" "0 < num_rows t" by simp_all
    from wf_sort_column_first[OF wf, of t] not_all
    obtain k where k: "find_sort_column t ?cs = Inr (Some k)" "k \<in> common_cols t t"
      "column_scalar t k"
      by (auto split: sum.splits option.splits)
    from k(2) have kn: "k \<in> set (column_names t)" by (simp add: common_cols_def)
    from wf_sort_by[OF wf kn k(3)] obtain idx where idx: "set idx \<subseteq> {0..<num_rows t}"
      "sort_by t k =
         Inr \<lparr>num_rows = length idx,
              columns = map (\<lambda>c. c\<lparr>cvals := map (\<lambda>i. cvals c ! i) idx\<rparr>) (columns t)\<rparr>"
      by blast
    let ?s = "\<lparr>num_rows = length idx,
              columns = map (\<lambda>c. c\<lparr>cvals := map (\<lambda>i. cvals c ! i) idx\<rparr>) (columns t)\<rparr>"
    have "\<forall>n\<in>set ?cs. check_column ?s ?s n = Inr []"
      using check_column_self[OF wf nf nd _ idx(1) idx(2)] names by simp
    from check_columns_all_equal[OF this] idx(2)
    have "compare_sorted t t k ?cs [] = []" by (simp add: compare_sorted_def)
    with k(1) True show ?thesis
      by (simp add: compare_issues_def compare_issues_self_pre)
  qed
  then show ?thesis by (simp add: compare_tables_def)
qed


lemma wf_table_empty: "wf_table table_empty"
  by (simp add: table_empty_def wf_table_def column_names_def)

theorem compare_self_witness:
  "wf_table table_mixed \<and> table_nan_free table_mixed \<and> no_duplicate_fields table_mixed \<and>
   (\<exists>c\<in>set (columns table_mixed). \<not> is_nested (ctype c)) \<and>
   compare_issues table_mixed table_mixed ''Table 1'' ''Table 2'' = Inr [] \<and>
   compare_tables table_mixed table_mixed ''Table 1'' ''Table 2'' = Inr True \<and>
   wf_table table_empty \<and> table_nan_free table_empty \<and> no_duplicate_fields table_empty \<and>
   num_rows table_empty = 0 \<and>
   compare_tables table_empty table_empty ''Table 1'' ''Table 2'' = Inr True"
proof -
  have nf: "table_nan_free table_mixed" by (simp add: table_nan_free_def table_mixed_def)
  have nd: "no_duplicate_fields table_mixed" by (simp add: no_duplicate_fields_def table_mixed_def)
  have sc: "\<exists>c\<in>set (columns table_mixed). \<not> is_nested (ctype c)" by (simp add: table_mixed_def)
  have nf0: "table_nan_free table_empty" by (simp add: table_nan_free_def table_empty_def)
  have nd0: "no_duplicate_fields table_empty" by (simp add: no_duplicate_fields_def table_empty_def)
  have z: "num_rows table_empty = 0" by (simp add: table_empty_def)
  from compare_self[OF wf_table_mixed nf nd, of "''Table 1''" "''Table 2''"]
    compare_self[OF wf_table_empty nf0 nd0, of "''Table 1''" "''Table 2''"]
    wf_table_mixed wf_table_empty nf nd sc nf0 nd0 z
  show ?thesis by blast
qed

text \<open>
  C7 as stated fails on a table whose only column is nested: no sort column is found and
  the issue of line 80 is reported. It fails on a \<^verbatim>\<open>double\<close> column holding NaN, which
  \<^verbatim>\<open>equals\<close> does not find equal to itself. And it fails on a table with a struct column
  of two fields of the same name, whose conversion to Python objects raises.
\<close>

theorem compare_self_counterexample:
  "wf_table table_list \<and>
   compare_issues table_list table_list ''Table 1'' ''Table 2'' =
     Inr [\<lparr>issue_type = ''sorting'', issue_message = NoSortableColumn\<rparr>] \<and>
   compare_tables table_list table_list ''Table 1'' ''Table 2'' = Inr False \<and>
   wf_table table_nan \<and>
   compare_issues table_nan table_nan ''Table 1'' ''Table 2'' =
     Inr [\<lparr>issue_type = ''column_values'', issue_message = DifferencesAt ''a'' 0\<rparr>] \<and>
   compare_tables table_nan table_nan ''Table 1'' ''Table 2'' = Inr False \<and>
   wf_table table_dup_struct \<and>
   compare_issues table_dup_struct table_dup_struct ''Table 1'' ''Table 2'' =
     Inr [\<lparr>issue_type = ''sorting'', issue_message = SortingError ValueError\<rparr>] \<and>
   compare_tables table_dup_struct table_dup_struct ''Table 1'' ''Table 2'' = Inr False"
  unfolding table_list_def table_nan_def table_dup_struct_def
  by code_simp

subsection \<open>What the verdict \<^verbatim>\<open>True\<close> says\<close>

lemma check_columns_empty:
  "check_columns s1 s2 cs issues = ([], None) \<Longrightarrow>
     issues = [] \<and> (\<forall>c\<in>set cs. check_column s1 s2 c = Inr [])"
proof (induction cs arbitrary: issues)
  case Nil
  then show ?case by simp
next
  case (Cons c cs)
  show ?case
  proof (cases "check_column s1 s2 c")
    case (Inl e)
    with Cons.prems show ?thesis by simp
  next
    case (Inr new)
    with Cons.prems have "check_columns s1 s2 cs (issues @ new) = ([], None)" by simp
    from Cons.IH[OF this] Inr show ?thesis by simp
  qed
qed

lemma arrow_eq_same: "arrow_eq x y \<Longrightarrow> x = y"
  by (induction x y rule: arrow_eq.induct) auto

lemma columns_equal_True:
  assumes "columns_equal ty col1 col2 = Inr True"
  shows "list_all2 py_eq (cvals col1) (cvals col2) \<and> (\<not> is_nested ty \<longrightarrow> cvals col1 = cvals col2)"
proof (cases "is_nested ty")
  case True
  with assms show ?thesis
    by (auto simp: columns_equal_def to_pylist_def py_eq_list_all2 split: if_splits)
next
  case False
  with assms have a: "list_all2 arrow_eq (cvals col1) (cvals col2)"
    by (simp add: columns_equal_def equals_def)
  then have "list_all2 py_eq (cvals col1) (cvals col2)"
    by (rule list_all2_mono) (rule arrow_eq_py_eq)
  moreover from a have "list_all2 (=) (cvals col1) (cvals col2)"
    by (rule list_all2_mono) (rule arrow_eq_same)
  ultimately show ?thesis by (simp add: list.rel_eq)
qed

lemma check_column_equal:
  assumes "check_column s1 s2 c = Inr []"
  shows "\<exists>col1 col2 ty. getitem s1 c = Inr col1 \<and> getitem s2 c = Inr col2 \<and>
           schema_field_type s1 c = Inr ty \<and> columns_equal ty col1 col2 = Inr True"
proof -
  from assms obtain col1 col2 ty where g: "getitem s1 c = Inr col1" "getitem s2 c = Inr col2"
    "schema_field_type s1 c = Inr ty" "compare_column c ty col1 col2 = Inr []"
    by (auto simp: check_column_def split: sum.splits)
  from compare_column_shape[OF g(4)] have "columns_equal ty col1 col2 = Inr True" by simp
  with g show ?thesis by blast
qed

lemma row_count_issues_empty:
  "row_count_issues t1 t2 l1 l2 = [] \<Longrightarrow> num_rows t1 = num_rows t2"
  by (simp add: row_count_issues_def split: if_splits)

lemma column_issues_empty:
  "column_issues t1 t2 l1 l2 = [] \<Longrightarrow> set (column_names t1) = set (column_names t2)"
  by (auto simp: column_issues_def Let_def split: if_splits)

text \<open>
  C1. When \<^verbatim>\<open>compare_tables\<close> returns \<^verbatim>\<open>True\<close> on two well-formed tables, the row counts
  are equal, the sets of column names are equal, and every common column is equal position
  by position in the canonical order: either the tables have no row and the column is
  empty in both, or a sort column was found, both tables were sorted by it, and the values
  of the column in the two sorted tables are pairwise equal as Python objects; for a
  column that the first table declares scalar the two value lists are the same.
\<close>

theorem equal_verdict:
  assumes wf1: "wf_table table1" and wf2: "wf_table table2"
    and eq: "compare_tables table1 table2 label1 label2 = Inr True"
  shows "num_rows table1 = num_rows table2 \<and>
         set (column_names table1) = set (column_names table2) \<and>
         (\<forall>c\<in>common_cols table1 table2. \<exists>col1 col2.
            list_all2 py_eq (cvals col1) (cvals col2) \<and>
            (column_scalar table1 c \<longrightarrow> cvals col1 = cvals col2) \<and>
            (num_rows table1 = 0 \<and> getitem table1 c = Inr col1 \<and> getitem table2 c = Inr col2 \<or>
             (\<exists>k s1 s2.
                find_sort_column table1 (sorted_list_of_set (common_cols table1 table2)) =
                  Inr (Some k) \<and>
                sort_by table1 k = Inr s1 \<and> sort_by table2 k = Inr s2 \<and>
                getitem s1 c = Inr col1 \<and> getitem s2 c = Inr col2)))"
proof -
  let ?pre = "row_count_issues table1 table2 label1 label2 @
              column_issues table1 table2 label1 label2"
  let ?cs = "sorted_list_of_set (common_cols table1 table2)"
  from eq have issues: "compare_issues table1 table2 label1 label2 = Inr []"
    by (auto simp: compare_tables_def split: sum.splits)
  from wf_find_sort_column[OF wf1, of table2] obtain r where
    r: "find_sort_column table1 ?cs = Inr r" ..
  have pre: "?pre = []"
  proof (cases r)
    case None
    with issues r show ?thesis by (auto simp: compare_issues_def Let_def split: if_splits)
  next
    case (Some k)
    from compare_sorted_shape[of table1 table2 k ?cs ?pre] obtain new where
      "compare_sorted table1 table2 k ?cs ?pre = ?pre @ new" by blast
    with issues r Some show ?thesis by (auto simp: compare_issues_def Let_def split: if_splits)
  qed
  then have rows: "num_rows table1 = num_rows table2"
    and names: "set (column_names table1) = set (column_names table2)"
    by (auto dest: row_count_issues_empty column_issues_empty)
  have "\<exists>col1 col2.
            list_all2 py_eq (cvals col1) (cvals col2) \<and>
            (column_scalar table1 c \<longrightarrow> cvals col1 = cvals col2) \<and>
            (num_rows table1 = 0 \<and> getitem table1 c = Inr col1 \<and> getitem table2 c = Inr col2 \<or>
             (\<exists>k s1 s2.
                find_sort_column table1 ?cs = Inr (Some k) \<and>
                sort_by table1 k = Inr s1 \<and> sort_by table2 k = Inr s2 \<and>
                getitem s1 c = Inr col1 \<and> getitem s2 c = Inr col2))"
    if c: "c \<in> common_cols table1 table2" for c
  proof (cases "0 < num_rows table1")
    case False
    from c have "c \<in> set (column_names table1)" "c \<in> set (column_names table2)"
      by (simp_all add: common_cols_def)
    with wf_getitem[OF wf1] wf_getitem[OF wf2] obtain col1 col2 where
      cols: "col1 \<in> set (columns table1)" "getitem table1 c = Inr col1"
        "col2 \<in> set (columns table2)" "getitem table2 c = Inr col2"
      by blast
    from False rows wf_column_length[OF wf1 cols(1)] wf_column_length[OF wf2 cols(3)]
    have "cvals col1 = []" "cvals col2 = []" by simp_all
    with False cols show ?thesis
      by (intro exI[of _ col1] exI[of _ col2]) simp
  next
    case True
    with rows c have guard: "common_cols table1 table2 \<noteq> {} \<and> 0 < num_rows table1 \<and>
        0 < num_rows table2" by auto
    from guard issues r pre obtain k where k: "r = Some k"
      "compare_sorted table1 table2 k ?cs [] = []"
      by (cases r) (auto simp: compare_issues_def)
    from k(2) obtain s1 s2 where s: "sort_by table1 k = Inr s1" "sort_by table2 k = Inr s2"
      "check_columns s1 s2 ?cs [] = ([], None)"
      by (auto simp: compare_sorted_def split: sum.splits prod.splits option.splits)
    from check_columns_empty[OF s(3)] c have "check_column s1 s2 c = Inr []"
      by (simp add: finite_common_cols)
    from check_column_equal[OF this] obtain col1 col2 ty where
      g: "getitem s1 c = Inr col1" "getitem s2 c = Inr col2"
        "schema_field_type s1 c = Inr ty" "columns_equal ty col1 col2 = Inr True"
      by blast
    from sort_by_schema[OF s(1), of c] g(3) have "schema_field_type table1 c = Inr ty" by simp
    with columns_equal_True[OF g(4)] have "list_all2 py_eq (cvals col1) (cvals col2)"
      "column_scalar table1 c \<longrightarrow> cvals col1 = cvals col2"
      by (simp_all add: column_scalar_def)
    with r k(1) s(1,2) g(1,2) show ?thesis by blast
  qed
  with rows names show ?thesis by blast
qed

lemma wf_table_12: "wf_table table_12"
  by (simp add: table_12_def wf_table_def column_names_def)

lemma wf_table_21: "wf_table table_21"
  by (simp add: table_21_def wf_table_def column_names_def)

lemma compare_tables_12_21: "compare_tables table_12 table_21 ''Table 1'' ''Table 2'' = Inr True"
  unfolding table_12_def table_21_def by code_simp

theorem equal_verdict_witness:
  "wf_table table_12 \<and> wf_table table_21 \<and>
   compare_tables table_12 table_21 ''Table 1'' ''Table 2'' = Inr True \<and>
   num_rows table_12 = num_rows table_21 \<and>
   set (column_names table_12) = set (column_names table_21) \<and>
   (\<exists>col1 col2 k s1 s2.
      sort_by table_12 k = Inr s1 \<and> sort_by table_21 k = Inr s2 \<and>
      getitem s1 ''a'' = Inr col1 \<and> getitem s2 ''a'' = Inr col2 \<and> cvals col1 = cvals col2)"
proof -
  note t = equal_verdict[OF wf_table_12 wf_table_21 compare_tables_12_21]
  have a: "''a'' \<in> common_cols table_12 table_21"
    by (simp add: common_cols_def column_names_def table_12_def table_21_def)
  have sc: "column_scalar table_12 ''a''"
    by (simp add: column_scalar_def schema_field_type_def table_12_def)
  have n: "num_rows table_12 \<noteq> 0" by (simp add: table_12_def)
  from t[THEN conjunct2, THEN conjunct2, THEN bspec, OF a] sc n have "\<exists>col1 col2 k s1 s2.
      sort_by table_12 k = Inr s1 \<and> sort_by table_21 k = Inr s2 \<and>
      getitem s1 ''a'' = Inr col1 \<and> getitem s2 ''a'' = Inr col2 \<and> cvals col1 = cvals col2"
    by (elim exE conjE disjE) (simp, blast)
  with t wf_table_12 wf_table_21 compare_tables_12_21 show ?thesis by blast
qed

subsection \<open>The three stages are independent\<close>

lemma check_columns_append:
  "check_columns s1 s2 cs issues =
     (issues @ fst (check_columns s1 s2 cs []), snd (check_columns s1 s2 cs []))"
proof (induction cs arbitrary: issues)
  case Nil
  then show ?case by simp
next
  case (Cons c cs)
  show ?case
  proof (cases "check_column s1 s2 c")
    case (Inl e)
    then show ?thesis by simp
  next
    case (Inr new)
    from Cons.IH[of "issues @ new"] Cons.IH[of new] Inr show ?thesis by simp
  qed
qed

lemma compare_sorted_append:
  "compare_sorted t1 t2 k cs issues = issues @ compare_sorted t1 t2 k cs []"
proof -
  have "compare_sorted t1 t2 k cs issues = issues @ compare_sorted t1 t2 k cs []"
    if "sort_by t1 k = Inr s1" "sort_by t2 k = Inr s2" for s1 s2
    using that check_columns_append[of s1 s2 cs issues]
    by (cases "check_columns s1 s2 cs []")
       (auto simp: compare_sorted_def split: option.splits)
  then show ?thesis
    by (cases "sort_by t1 k"; cases "sort_by t2 k") (auto simp: compare_sorted_def)
qed

lemma compare_issues_stages:
  "compare_issues t1 t2 l1 l2 =
     (case row_by_row_issues t1 t2 of
        Inl e \<Rightarrow> Inl e
      | Inr rest \<Rightarrow> Inr (row_count_issues t1 t2 l1 l2 @ column_issues t1 t2 l1 l2 @ rest))"
  using compare_sorted_append[of t1 t2 _ _ "row_count_issues t1 t2 l1 l2 @ column_issues t1 t2 l1 l2"]
  by (auto simp: compare_issues_def row_by_row_issues_def Let_def split: sum.splits option.splits)

lemma row_by_row_types:
  assumes "row_by_row_issues t1 t2 = Inr rest" and "i \<in> set rest"
  shows "issue_type i = ''sorting'' \<or>
         issue_type i = ''column_values'' \<and>
           (\<exists>c\<in>common_cols t1 t2. issue_message i = Differences c \<or>
              (\<exists>n. issue_message i = DifferencesAt c n))"
proof (cases "common_cols t1 t2 \<noteq> {} \<and> num_rows t1 > 0 \<and> num_rows t2 > 0")
  case False
  with assms show ?thesis by (auto simp: row_by_row_issues_def)
next
  case True
  let ?cs = "sorted_list_of_set (common_cols t1 t2)"
  show ?thesis
  proof (cases "find_sort_column t1 ?cs")
    case (Inl e)
    with True assms show ?thesis by (simp add: row_by_row_issues_def)
  next
    case (Inr r)
    show ?thesis
    proof (cases r)
      case None
      with Inr True assms show ?thesis
        by (auto simp: row_by_row_issues_def no_sortable_issue_def)
    next
      case (Some k)
      with Inr True assms have rest: "rest = compare_sorted t1 t2 k ?cs []"
        by (simp add: row_by_row_issues_def)
      from compare_sorted_shape[of t1 t2 k ?cs "[]"] rest assms(2) show ?thesis
        by (auto simp: finite_common_cols)
    qed
  qed
qed

lemma wf_row_by_row:
  assumes "wf_table t1"
  shows "\<exists>rest. row_by_row_issues t1 t2 = Inr rest"
  using wf_find_sort_column[OF assms, of t2]
  by (auto simp: row_by_row_issues_def split: option.splits)

subsection \<open>Only the common columns take part in the row-by-row stage\<close>















subsection \<open>Columns that only one table has\<close>


lemma abc_abd:
  "{''a'', ''b'', ''c''} - {''a'', ''b'', ''d''} = {''c''}"
  "{''a'', ''b'', ''d''} - {''a'', ''b'', ''c''} = {''d''}"
  "{''a'', ''b'', ''c''} \<inter> {''a'', ''b'', ''d''} = {''a'', ''b''}"
  by auto


lemma wf_table_abc: "wf_table table_abc"
  by (simp add: table_abc_def wf_table_def column_names_def)




subsection \<open>What the stages report\<close>

lemma pre_issues_explicit:
  "row_count_issues t1 t2 l1 l2 @ column_issues t1 t2 l1 l2 =
     (if num_rows t1 \<noteq> num_rows t2 then
        [\<lparr>issue_type = ''row_count'',
          issue_message = RowCountMismatch l1 (num_rows t1) l2 (num_rows t2)\<rparr>]
      else []) @
     (if set (column_names t1) - set (column_names t2) \<noteq> {} then
        [\<lparr>issue_type = ''columns'',
          issue_message = AdditionalColumns l1
            (sorted_list_of_set (set (column_names t1) - set (column_names t2)))\<rparr>]
      else []) @
     (if set (column_names t2) - set (column_names t1) \<noteq> {} then
        [\<lparr>issue_type = ''columns'',
          issue_message = AdditionalColumns l2
            (sorted_list_of_set (set (column_names t2) - set (column_names t1)))\<rparr>]
      else [])"
  by (simp add: row_count_issues_def column_issues_def Let_def)

lemma nested_not_scalar: "column_nested t c \<Longrightarrow> \<not> column_scalar t c"
  by (auto simp: column_nested_def column_scalar_def split: sum.splits)

lemma sort_column_unique:
  assumes wf: "wf_table table1"
    and k: "k \<in> common_cols table1 table2" "column_scalar table1 k"
      "\<forall>c\<in>common_cols table1 table2. c < k \<longrightarrow> column_nested table1 c"
  shows "find_sort_column table1 (sorted_list_of_set (common_cols table1 table2)) = Inr (Some k)"
proof -
  let ?r = "find_sort_column table1 (sorted_list_of_set (common_cols table1 table2))"
  note first = wf_sort_column_first[OF wf, of table2]
  show ?thesis
  proof (cases ?r)
    case (Inl e)
    with first show ?thesis by simp
  next
    case (Inr r)
    show ?thesis
    proof (cases r)
      case None
      with Inr first k(1) have "column_nested table1 k" by simp
      with k(2) show ?thesis by (simp add: nested_not_scalar)
    next
      case (Some k')
      with Inr first have k': "k' \<in> common_cols table1 table2" "column_scalar table1 k'"
        "\<forall>c\<in>common_cols table1 table2. c < k' \<longrightarrow> column_nested table1 c"
        by simp_all
      from k k' have "\<not> k' < k" "\<not> k < k'" by (auto dest: nested_not_scalar)
      then have "k' = k" by simp
      with Inr Some show ?thesis by simp
    qed
  qed
qed

lemma check_columns_None:
  "check_columns s1 s2 cs issues = (res, None) \<Longrightarrow> c \<in> set cs \<Longrightarrow>
     \<exists>new. check_column s1 s2 c = Inr new \<and> set new \<subseteq> set res"
proof (induction cs arbitrary: issues)
  case Nil
  then show ?case by simp
next
  case (Cons a cs)
  show ?case
  proof (cases "check_column s1 s2 a")
    case (Inl e)
    with Cons.prems show ?thesis by simp
  next
    case (Inr new)
    with Cons.prems have rec: "check_columns s1 s2 cs (issues @ new) = (res, None)" by simp
    from check_columns_shape[OF rec] have sub: "set new \<subseteq> set res" by auto
    show ?thesis
    proof (cases "c = a")
      case True
      with Inr sub show ?thesis by simp
    next
      case False
      with Cons.prems have "c \<in> set cs" by simp
      from Cons.IH[OF rec this] show ?thesis .
    qed
  qed
qed

lemma compare_column_differ:
  assumes "compare_column c ty col1 col2 = Inr new"
  shows "(columns_differ ty col1 col2 \<longrightarrow>
            (\<exists>m. new = [\<lparr>issue_type = ''column_values'', issue_message = m\<rparr>] \<and>
               (m = Differences c \<or> (\<exists>i. m = DifferencesAt c i)))) \<and>
         (is_nested ty \<longrightarrow> (\<exists>p. to_pylist col1 = Inr p) \<and> (\<exists>p. to_pylist col2 = Inr p))"
  using assms
  by (auto simp: compare_column_def columns_equal_def columns_differ_def to_pylist_def
        split: sum.splits if_splits)

lemma compare_sorted_reports:
  assumes s: "sort_by t1 k = Inr s1" "sort_by t2 k = Inr s2"
    and c: "c \<in> set cs" "getitem s1 c = Inr col1" "getitem s2 c = Inr col2"
      "schema_field_type t1 c = Inr ty"
  shows "(columns_differ ty col1 col2 \<longrightarrow>
            (\<exists>m. \<lparr>issue_type = ''column_values'', issue_message = m\<rparr> \<in>
                   set (compare_sorted t1 t2 k cs issues) \<and>
               (m = Differences c \<or> (\<exists>i. m = DifferencesAt c i))) \<or>
            (\<exists>e. \<lparr>issue_type = ''sorting'', issue_message = SortingError e\<rparr> \<in>
                   set (compare_sorted t1 t2 k cs issues))) \<and>
         (is_nested ty \<and> ((\<exists>e. to_pylist col1 = Inl e) \<or> (\<exists>e. to_pylist col2 = Inl e)) \<longrightarrow>
            (\<exists>e. \<lparr>issue_type = ''sorting'', issue_message = SortingError e\<rparr> \<in>
                   set (compare_sorted t1 t2 k cs issues)))"
proof -
  obtain res x where r: "check_columns s1 s2 cs issues = (res, x)"
    by (cases "check_columns s1 s2 cs issues")
  show ?thesis
  proof (cases x)
    case (Some e)
    with s r have "\<lparr>issue_type = ''sorting'', issue_message = SortingError e\<rparr> \<in>
        set (compare_sorted t1 t2 k cs issues)"
      by (simp add: compare_sorted_def sorting_error_def)
    then show ?thesis by blast
  next
    case None
    with s r have out: "compare_sorted t1 t2 k cs issues = res" by (simp add: compare_sorted_def)
    from check_columns_None[OF r[unfolded None] c(1)] obtain new where
      new: "check_column s1 s2 c = Inr new" "set new \<subseteq> set res" by blast
    from sort_by_schema[OF s(1), of c] c(4) have "schema_field_type s1 c = Inr ty" by simp
    with new(1) c(2,3) have "compare_column c ty col1 col2 = Inr new"
      by (simp add: check_column_def)
    from compare_column_differ[OF this] new(2) out show ?thesis by auto
  qed
qed

subsection \<open>A failure of the sort\<close>

text \<open>
  C5. When the sort of either table by the chosen sort column raises, the issue list is:
  the issue of the row counts if they differ, the issue of the columns only the first
  table has if there are any, the same for the second table, and then exactly one issue
  of type \<^verbatim>\<open>sorting\<close> whose message carries the exception. Nothing found before the
  failure is lost, and there is nothing after it: no column is compared.
\<close>

theorem sort_failure:
  assumes "common_cols table1 table2 \<noteq> {}" and "0 < num_rows table1" and "0 < num_rows table2"
    and "find_sort_column table1 (sorted_list_of_set (common_cols table1 table2)) = Inr (Some k)"
    and "sort_by table1 k = Inl e \<or> (\<exists>s. sort_by table1 k = Inr s) \<and> sort_by table2 k = Inl e"
  shows "compare_issues table1 table2 label1 label2 =
           Inr ((if num_rows table1 \<noteq> num_rows table2 then
                   [\<lparr>issue_type = ''row_count'',
                     issue_message =
                       RowCountMismatch label1 (num_rows table1) label2 (num_rows table2)\<rparr>]
                 else []) @
                (if set (column_names table1) - set (column_names table2) \<noteq> {} then
                   [\<lparr>issue_type = ''columns'',
                     issue_message = AdditionalColumns label1
                       (sorted_list_of_set
                          (set (column_names table1) - set (column_names table2)))\<rparr>]
                 else []) @
                (if set (column_names table2) - set (column_names table1) \<noteq> {} then
                   [\<lparr>issue_type = ''columns'',
                     issue_message = AdditionalColumns label2
                       (sorted_list_of_set
                          (set (column_names table2) - set (column_names table1)))\<rparr>]
                 else []) @
                [\<lparr>issue_type = ''sorting'', issue_message = SortingError e\<rparr>])"
proof -
  let ?pre = "row_count_issues table1 table2 label1 label2 @
              column_issues table1 table2 label1 label2"
  from assms(5) have "compare_sorted table1 table2 k
      (sorted_list_of_set (common_cols table1 table2)) ?pre =
     ?pre @ [\<lparr>issue_type = ''sorting'', issue_message = SortingError e\<rparr>]"
    by (auto simp: compare_sorted_def sorting_error_def)
  with assms(1-4) have "compare_issues table1 table2 label1 label2 =
      Inr (?pre @ [\<lparr>issue_type = ''sorting'', issue_message = SortingError e\<rparr>])"
    by (simp add: compare_issues_def)
  then show ?thesis by (simp only: pre_issues_explicit append_assoc)
qed

lemma names_table_ac: "set (column_names table_ac) = {''a'', ''c''}"
  by (simp add: column_names_def table_ac_def)

lemma names_table_list_d: "set (column_names table_list_d) = {''a'', ''d''}"
  by (simp add: column_names_def table_list_d_def)

lemma ac_ad:
  "{''a'', ''c''} - {''a'', ''d''} = {''c''}"
  "{''a'', ''d''} - {''a'', ''c''} = {''d''}"
  "{''a'', ''c''} \<inter> {''a'', ''d''} = {''a''}"
  by auto

theorem sort_failure_witness:
  "common_cols table_ac table_list_d \<noteq> {} \<and> 0 < num_rows table_ac \<and> 0 < num_rows table_list_d \<and>
   find_sort_column table_ac (sorted_list_of_set (common_cols table_ac table_list_d)) =
     Inr (Some ''a'') \<and>
   (\<exists>s. sort_by table_ac ''a'' = Inr s) \<and> sort_by table_list_d ''a'' = Inl ArrowTypeError \<and>
   compare_issues table_ac table_list_d ''Table 1'' ''Table 2'' =
     Inr [\<lparr>issue_type = ''row_count'', issue_message = RowCountMismatch ''Table 1'' 2 ''Table 2'' 3\<rparr>,
          \<lparr>issue_type = ''columns'', issue_message = AdditionalColumns ''Table 1'' [''c'']\<rparr>,
          \<lparr>issue_type = ''columns'', issue_message = AdditionalColumns ''Table 2'' [''d'']\<rparr>,
          \<lparr>issue_type = ''sorting'', issue_message = SortingError ArrowTypeError\<rparr>]"
proof -
  have common: "common_cols table_ac table_list_d = {''a''}"
    by (simp add: common_cols_def names_table_ac names_table_list_d ac_ad)
  have k: "find_sort_column table_ac (sorted_list_of_set (common_cols table_ac table_list_d)) =
      Inr (Some ''a'')"
    by (simp add: common) (simp add: schema_field_type_def table_ac_def)
  have s2: "sort_by table_list_d ''a'' = Inl ArrowTypeError"
    by (simp add: sort_by_def table_list_d_def)
  have s1: "\<exists>s. sort_by table_ac ''a'' = Inr s"
    by (simp add: sort_by_def table_ac_def take_rows_def sort_indices_def)
  have n: "0 < num_rows table_ac" "0 < num_rows table_list_d"
    by (simp_all add: table_ac_def table_list_d_def)
  have rows: "num_rows table_ac = 2" "num_rows table_list_d = 3"
    by (simp_all add: table_ac_def table_list_d_def)
  have ne: "common_cols table_ac table_list_d \<noteq> {}" by (simp add: common)
  from s1 s2 have fail: "sort_by table_ac ''a'' = Inl ArrowTypeError \<or>
      (\<exists>s. sort_by table_ac ''a'' = Inr s) \<and> sort_by table_list_d ''a'' = Inl ArrowTypeError"
    by blast
  from sort_failure[OF ne n k fail, of "''Table 1''" "''Table 2''"]
  have "compare_issues table_ac table_list_d ''Table 1'' ''Table 2'' =
     Inr [\<lparr>issue_type = ''row_count'', issue_message = RowCountMismatch ''Table 1'' 2 ''Table 2'' 3\<rparr>,
          \<lparr>issue_type = ''columns'', issue_message = AdditionalColumns ''Table 1'' [''c'']\<rparr>,
          \<lparr>issue_type = ''columns'', issue_message = AdditionalColumns ''Table 2'' [''d'']\<rparr>,
          \<lparr>issue_type = ''sorting'', issue_message = SortingError ArrowTypeError\<rparr>]"
    by (simp add: names_table_ac names_table_list_d ac_ad rows)
  with ne n k s1 s2 show ?thesis by blast
qed

subsection \<open>What the row-by-row stage reports\<close>

lemma row_by_row_sorted:
  assumes wf: "wf_table table1"
    and guard: "common_cols table1 table2 \<noteq> {}" "0 < num_rows table1" "0 < num_rows table2"
    and k: "k \<in> common_cols table1 table2" "column_scalar table1 k"
      "\<forall>c\<in>common_cols table1 table2. c < k \<longrightarrow> column_nested table1 c"
  shows "row_by_row_issues table1 table2 =
           Inr (compare_sorted table1 table2 k (sorted_list_of_set (common_cols table1 table2)) [])"
  using sort_column_unique[OF wf k] guard by (simp add: row_by_row_issues_def)

lemma row_by_row_reports:
  assumes wf: "wf_table table1"
    and rest: "row_by_row_issues table1 table2 = Inr rest"
    and guard: "common_cols table1 table2 \<noteq> {}" "0 < num_rows table1" "0 < num_rows table2"
    and k: "k \<in> common_cols table1 table2" "column_scalar table1 k"
      "\<forall>c\<in>common_cols table1 table2. c < k \<longrightarrow> column_nested table1 c"
  shows "sort_by table1 k = Inl e \<Longrightarrow>
           rest = [\<lparr>issue_type = ''sorting'', issue_message = SortingError e\<rparr>]"
    and "sort_by table1 k = Inr s1 \<Longrightarrow> sort_by table2 k = Inl e \<Longrightarrow>
           rest = [\<lparr>issue_type = ''sorting'', issue_message = SortingError e\<rparr>]"
    and "sort_by table1 k = Inr s1 \<Longrightarrow> sort_by table2 k = Inr s2 \<Longrightarrow>
         c \<in> common_cols table1 table2 \<Longrightarrow> getitem s1 c = Inr col1 \<Longrightarrow> getitem s2 c = Inr col2 \<Longrightarrow>
         schema_field_type table1 c = Inr ty \<Longrightarrow>
           (columns_differ ty col1 col2 \<longrightarrow>
              (\<exists>m. \<lparr>issue_type = ''column_values'', issue_message = m\<rparr> \<in> set rest \<and>
                 (m = Differences c \<or> (\<exists>i. m = DifferencesAt c i))) \<or>
              (\<exists>e. \<lparr>issue_type = ''sorting'', issue_message = SortingError e\<rparr> \<in> set rest)) \<and>
           (is_nested ty \<and> ((\<exists>e. to_pylist col1 = Inl e) \<or> (\<exists>e. to_pylist col2 = Inl e)) \<longrightarrow>
              (\<exists>e. \<lparr>issue_type = ''sorting'', issue_message = SortingError e\<rparr> \<in> set rest))"
proof -
  let ?cs = "sorted_list_of_set (common_cols table1 table2)"
  from row_by_row_sorted[OF wf guard k] rest
  have r: "rest = compare_sorted table1 table2 k ?cs []" by simp
  show "rest = [\<lparr>issue_type = ''sorting'', issue_message = SortingError e\<rparr>]"
    if "sort_by table1 k = Inl e"
    using that r by (simp add: compare_sorted_def sorting_error_def)
  show "rest = [\<lparr>issue_type = ''sorting'', issue_message = SortingError e\<rparr>]"
    if "sort_by table1 k = Inr s1" "sort_by table2 k = Inl e"
    using that r by (simp add: compare_sorted_def sorting_error_def)
  show "(columns_differ ty col1 col2 \<longrightarrow>
              (\<exists>m. \<lparr>issue_type = ''column_values'', issue_message = m\<rparr> \<in> set rest \<and>
                 (m = Differences c \<or> (\<exists>i. m = DifferencesAt c i))) \<or>
              (\<exists>e. \<lparr>issue_type = ''sorting'', issue_message = SortingError e\<rparr> \<in> set rest)) \<and>
           (is_nested ty \<and> ((\<exists>e. to_pylist col1 = Inl e) \<or> (\<exists>e. to_pylist col2 = Inl e)) \<longrightarrow>
              (\<exists>e. \<lparr>issue_type = ''sorting'', issue_message = SortingError e\<rparr> \<in> set rest))"
    if "sort_by table1 k = Inr s1" "sort_by table2 k = Inr s2"
      "c \<in> common_cols table1 table2" "getitem s1 c = Inr col1" "getitem s2 c = Inr col2"
      "schema_field_type table1 c = Inr ty"
  proof -
    from that(3) have "c \<in> set ?cs" by (simp add: finite_common_cols)
    from compare_sorted_reports[OF that(1,2) this that(4,5,6), of "[]"] r
    show ?thesis by simp
  qed
qed

subsection \<open>A row-count mismatch\<close>

lemma mismatch_continues:
  assumes wf: "wf_table table1" and ne: "num_rows table1 \<noteq> num_rows table2"
  shows "\<exists>rest.
         compare_issues table1 table2 label1 label2 =
           Inr (\<lparr>issue_type = ''row_count'',
                 issue_message =
                   RowCountMismatch label1 (num_rows table1) label2 (num_rows table2)\<rparr> #
                (if set (column_names table1) - set (column_names table2) \<noteq> {} then
                   [\<lparr>issue_type = ''columns'',
                     issue_message = AdditionalColumns label1
                       (sorted_list_of_set
                          (set (column_names table1) - set (column_names table2)))\<rparr>]
                 else []) @
                (if set (column_names table2) - set (column_names table1) \<noteq> {} then
                   [\<lparr>issue_type = ''columns'',
                     issue_message = AdditionalColumns label2
                       (sorted_list_of_set
                          (set (column_names table2) - set (column_names table1)))\<rparr>]
                 else []) @
                rest) \<and>
         row_by_row_issues table1 table2 = Inr rest \<and>
         (\<forall>i\<in>set rest. issue_type i \<noteq> ''row_count'') \<and>
         (\<forall>k s1 s2 c col1 col2 ty.
            common_cols table1 table2 \<noteq> {} \<and> 0 < num_rows table1 \<and> 0 < num_rows table2 \<and>
            k \<in> common_cols table1 table2 \<and> column_scalar table1 k \<and>
            (\<forall>c'\<in>common_cols table1 table2. c' < k \<longrightarrow> column_nested table1 c') \<and>
            sort_by table1 k = Inr s1 \<and> sort_by table2 k = Inr s2 \<and>
            c \<in> common_cols table1 table2 \<and> getitem s1 c = Inr col1 \<and> getitem s2 c = Inr col2 \<and>
            schema_field_type table1 c = Inr ty \<and> columns_differ ty col1 col2 \<longrightarrow>
              (\<exists>m. \<lparr>issue_type = ''column_values'', issue_message = m\<rparr> \<in> set rest \<and>
                 (m = Differences c \<or> (\<exists>i. m = DifferencesAt c i))) \<or>
              (\<exists>e. \<lparr>issue_type = ''sorting'', issue_message = SortingError e\<rparr> \<in> set rest))"
proof -
  from wf_row_by_row[OF wf, of table2] obtain rest where
    rest: "row_by_row_issues table1 table2 = Inr rest" ..
  from row_by_row_types[OF rest] have 1: "\<forall>i\<in>set rest. issue_type i \<noteq> ''row_count''"
    by fastforce
  from rest have "compare_issues table1 table2 label1 label2 =
      Inr ((row_count_issues table1 table2 label1 label2 @
            column_issues table1 table2 label1 label2) @ rest)"
    by (simp add: compare_issues_stages)
  with ne have 2: "compare_issues table1 table2 label1 label2 =
           Inr (\<lparr>issue_type = ''row_count'',
                 issue_message =
                   RowCountMismatch label1 (num_rows table1) label2 (num_rows table2)\<rparr> #
                (if set (column_names table1) - set (column_names table2) \<noteq> {} then
                   [\<lparr>issue_type = ''columns'',
                     issue_message = AdditionalColumns label1
                       (sorted_list_of_set
                          (set (column_names table1) - set (column_names table2)))\<rparr>]
                 else []) @
                (if set (column_names table2) - set (column_names table1) \<noteq> {} then
                   [\<lparr>issue_type = ''columns'',
                     issue_message = AdditionalColumns label2
                       (sorted_list_of_set
                          (set (column_names table2) - set (column_names table1)))\<rparr>]
                 else []) @
                rest)"
    by (simp only: pre_issues_explicit) simp
  have 3: "(\<exists>m. \<lparr>issue_type = ''column_values'', issue_message = m\<rparr> \<in> set rest \<and>
                 (m = Differences c \<or> (\<exists>i. m = DifferencesAt c i))) \<or>
              (\<exists>e. \<lparr>issue_type = ''sorting'', issue_message = SortingError e\<rparr> \<in> set rest)"
    if "common_cols table1 table2 \<noteq> {} \<and> 0 < num_rows table1 \<and> 0 < num_rows table2 \<and>
            k \<in> common_cols table1 table2 \<and> column_scalar table1 k \<and>
            (\<forall>c'\<in>common_cols table1 table2. c' < k \<longrightarrow> column_nested table1 c') \<and>
            sort_by table1 k = Inr s1 \<and> sort_by table2 k = Inr s2 \<and>
            c \<in> common_cols table1 table2 \<and> getitem s1 c = Inr col1 \<and> getitem s2 c = Inr col2 \<and>
            schema_field_type table1 c = Inr ty \<and> columns_differ ty col1 col2"
    for k s1 s2 c col1 col2 ty
    using that row_by_row_reports(3)[OF wf rest, of k s1 s2 c col1 col2 ty] by blast
  from 1 2 3 rest show ?thesis by blast
qed

text \<open>
  C8. When the row counts differ, the issue list starts with the one issue of type
  \<^verbatim>\<open>row_count\<close>, and the comparison goes on. The column-set check follows: the issue of
  the columns only the first table has, if there are any, and the same for the second
  table. Then comes what the row-by-row stage finds, none of it of type \<^verbatim>\<open>row_count\<close>:
  when both tables have rows, a sort column exists and both sorts succeed, every common
  column that mismatches in the sorted tables has its issue of type \<^verbatim>\<open>column_values\<close>
  there, unless a comparison error is reported. In particular, a table compared with its
  copy without one row gives exactly one issue of type \<^verbatim>\<open>row_count\<close>.
\<close>

theorem row_count_mismatch:
  "(wf_table table1 \<and> num_rows table1 \<noteq> num_rows table2 \<longrightarrow>
      (\<exists>rest.
         compare_issues table1 table2 label1 label2 =
           Inr (\<lparr>issue_type = ''row_count'',
                 issue_message =
                   RowCountMismatch label1 (num_rows table1) label2 (num_rows table2)\<rparr> #
                (if set (column_names table1) - set (column_names table2) \<noteq> {} then
                   [\<lparr>issue_type = ''columns'',
                     issue_message = AdditionalColumns label1
                       (sorted_list_of_set
                          (set (column_names table1) - set (column_names table2)))\<rparr>]
                 else []) @
                (if set (column_names table2) - set (column_names table1) \<noteq> {} then
                   [\<lparr>issue_type = ''columns'',
                     issue_message = AdditionalColumns label2
                       (sorted_list_of_set
                          (set (column_names table2) - set (column_names table1)))\<rparr>]
                 else []) @
                rest) \<and>
         row_by_row_issues table1 table2 = Inr rest \<and>
         (\<forall>i\<in>set rest. issue_type i \<noteq> ''row_count'') \<and>
         (\<forall>k s1 s2 c col1 col2 ty.
            common_cols table1 table2 \<noteq> {} \<and> 0 < num_rows table1 \<and> 0 < num_rows table2 \<and>
            k \<in> common_cols table1 table2 \<and> column_scalar table1 k \<and>
            (\<forall>c'\<in>common_cols table1 table2. c' < k \<longrightarrow> column_nested table1 c') \<and>
            sort_by table1 k = Inr s1 \<and> sort_by table2 k = Inr s2 \<and>
            c \<in> common_cols table1 table2 \<and> getitem s1 c = Inr col1 \<and> getitem s2 c = Inr col2 \<and>
            schema_field_type table1 c = Inr ty \<and> columns_differ ty col1 col2 \<longrightarrow>
              (\<exists>m. \<lparr>issue_type = ''column_values'', issue_message = m\<rparr> \<in> set rest \<and>
                 (m = Differences c \<or> (\<exists>i. m = DifferencesAt c i))) \<or>
              (\<exists>e. \<lparr>issue_type = ''sorting'', issue_message = SortingError e\<rparr> \<in> set rest)))) \<and>
   (wf_table t \<and> n < num_rows t \<longrightarrow>
      (\<exists>issues. compare_issues t (remove_row n t) label1 label2 = Inr issues \<and>
         length (filter (\<lambda>i. issue_type i = ''row_count'') issues) = 1))"
proof (intro conjI impI)
  assume "wf_table table1 \<and> num_rows table1 \<noteq> num_rows table2"
  then have "wf_table table1" "num_rows table1 \<noteq> num_rows table2" by simp_all
  from mismatch_continues[OF this, of label1 label2]
  show "\<exists>rest.
         compare_issues table1 table2 label1 label2 =
           Inr (\<lparr>issue_type = ''row_count'',
                 issue_message =
                   RowCountMismatch label1 (num_rows table1) label2 (num_rows table2)\<rparr> #
                (if set (column_names table1) - set (column_names table2) \<noteq> {} then
                   [\<lparr>issue_type = ''columns'',
                     issue_message = AdditionalColumns label1
                       (sorted_list_of_set
                          (set (column_names table1) - set (column_names table2)))\<rparr>]
                 else []) @
                (if set (column_names table2) - set (column_names table1) \<noteq> {} then
                   [\<lparr>issue_type = ''columns'',
                     issue_message = AdditionalColumns label2
                       (sorted_list_of_set
                          (set (column_names table2) - set (column_names table1)))\<rparr>]
                 else []) @
                rest) \<and>
         row_by_row_issues table1 table2 = Inr rest \<and>
         (\<forall>i\<in>set rest. issue_type i \<noteq> ''row_count'') \<and>
         (\<forall>k s1 s2 c col1 col2 ty.
            common_cols table1 table2 \<noteq> {} \<and> 0 < num_rows table1 \<and> 0 < num_rows table2 \<and>
            k \<in> common_cols table1 table2 \<and> column_scalar table1 k \<and>
            (\<forall>c'\<in>common_cols table1 table2. c' < k \<longrightarrow> column_nested table1 c') \<and>
            sort_by table1 k = Inr s1 \<and> sort_by table2 k = Inr s2 \<and>
            c \<in> common_cols table1 table2 \<and> getitem s1 c = Inr col1 \<and> getitem s2 c = Inr col2 \<and>
            schema_field_type table1 c = Inr ty \<and> columns_differ ty col1 col2 \<longrightarrow>
              (\<exists>m. \<lparr>issue_type = ''column_values'', issue_message = m\<rparr> \<in> set rest \<and>
                 (m = Differences c \<or> (\<exists>i. m = DifferencesAt c i))) \<or>
              (\<exists>e. \<lparr>issue_type = ''sorting'', issue_message = SortingError e\<rparr> \<in> set rest))" .
next
  assume a: "wf_table t \<and> n < num_rows t"
  then have wf: "wf_table t" and ne: "num_rows t \<noteq> num_rows (remove_row n t)"
    by (auto simp: remove_row_def)
  from mismatch_continues[OF wf ne, of label1 label2] obtain rest where
    rest: "compare_issues t (remove_row n t) label1 label2 =
           Inr (\<lparr>issue_type = ''row_count'',
                 issue_message =
                   RowCountMismatch label1 (num_rows t) label2 (num_rows (remove_row n t))\<rparr> #
                (if set (column_names t) - set (column_names (remove_row n t)) \<noteq> {} then
                   [\<lparr>issue_type = ''columns'',
                     issue_message = AdditionalColumns label1
                       (sorted_list_of_set
                          (set (column_names t) - set (column_names (remove_row n t))))\<rparr>]
                 else []) @
                (if set (column_names (remove_row n t)) - set (column_names t) \<noteq> {} then
                   [\<lparr>issue_type = ''columns'',
                     issue_message = AdditionalColumns label2
                       (sorted_list_of_set
                          (set (column_names (remove_row n t)) - set (column_names t)))\<rparr>]
                 else []) @
                rest)"
    "\<forall>i\<in>set rest. issue_type i \<noteq> ''row_count''"
    by blast
  from rest(2) have "filter (\<lambda>i. issue_type i = ''row_count'') rest = []"
    by (simp only: filter_empty_conv)
  with rest(1) show "\<exists>issues. compare_issues t (remove_row n t) label1 label2 = Inr issues \<and>
         length (filter (\<lambda>i. issue_type i = ''row_count'') issues) = 1"
    by simp
qed

lemma names_table_abc: "set (column_names table_abc) = {''a'', ''b'', ''c''}"
  by (simp add: column_names_def table_abc_def)

lemma names_table_abd3: "set (column_names table_abd3) = {''a'', ''b'', ''d''}"
  by (simp add: column_names_def table_abd3_def)

lemma common_abc_abd3: "common_cols table_abc table_abd3 = {''a'', ''b''}"
  by (simp add: common_cols_def names_table_abc names_table_abd3 abc_abd)

lemma sort_by_table_abc: "sort_by table_abc ''a'' = Inr table_abc"
  unfolding table_abc_def by code_simp

lemma sort_by_table_abd3: "sort_by table_abd3 ''a'' = Inr table_abd3_sorted"
  unfolding table_abd3_def table_abd3_sorted_def by code_simp

lemma first_scalar_abc:
  "''a'' \<in> common_cols table_abc table_abd3 \<and> column_scalar table_abc ''a'' \<and>
   (\<forall>c'\<in>common_cols table_abc table_abd3. c' < ''a'' \<longrightarrow> column_nested table_abc c')"
proof -
  have "\<not> ''b'' < ''a''" by code_simp
  moreover have "column_scalar table_abc ''a''"
    by (simp add: column_scalar_def schema_field_type_def table_abc_def)
  ultimately show ?thesis by (simp add: common_abc_abd3)
qed

lemma column_b_abc_abd3:
  "getitem table_abc ''b'' = Inr \<lparr>cname = ''b'', ctype = Utf8, cvals = [StrV ''x'', StrV ''y'']\<rparr> \<and>
   getitem table_abd3_sorted ''b'' =
     Inr \<lparr>cname = ''b'', ctype = Utf8, cvals = [StrV ''z'', StrV ''y'', Null]\<rparr> \<and>
   schema_field_type table_abc ''b'' = Inr Utf8 \<and>
   columns_differ Utf8 \<lparr>cname = ''b'', ctype = Utf8, cvals = [StrV ''x'', StrV ''y'']\<rparr>
     \<lparr>cname = ''b'', ctype = Utf8, cvals = [StrV ''z'', StrV ''y'', Null]\<rparr>"
  unfolding table_abc_def table_abd3_sorted_def by code_simp

lemma row_by_row_abc_abd3:
  "row_by_row_issues table_abc table_abd3 =
     Inr [\<lparr>issue_type = ''column_values'', issue_message = Differences ''a''\<rparr>,
          \<lparr>issue_type = ''column_values'', issue_message = Differences ''b''\<rparr>]"
  unfolding table_abc_def table_abd3_def by code_simp

lemma remove_row_table_123: "remove_row 2 table_123 = table_12"
  by (simp add: remove_row_def table_123_def table_12_def)

theorem row_count_mismatch_witness:
  "wf_table table_abc \<and> num_rows table_abc \<noteq> num_rows table_abd3 \<and>
   compare_issues table_abc table_abd3 ''Table 1'' ''Table 2'' =
     Inr [\<lparr>issue_type = ''row_count'', issue_message = RowCountMismatch ''Table 1'' 2 ''Table 2'' 3\<rparr>,
          \<lparr>issue_type = ''columns'', issue_message = AdditionalColumns ''Table 1'' [''c'']\<rparr>,
          \<lparr>issue_type = ''columns'', issue_message = AdditionalColumns ''Table 2'' [''d'']\<rparr>,
          \<lparr>issue_type = ''column_values'', issue_message = Differences ''a''\<rparr>,
          \<lparr>issue_type = ''column_values'', issue_message = Differences ''b''\<rparr>] \<and>
   sort_by table_abc ''a'' = Inr table_abc \<and> sort_by table_abd3 ''a'' = Inr table_abd3_sorted \<and>
   (\<exists>rest. row_by_row_issues table_abc table_abd3 = Inr rest \<and>
      ((\<exists>m. \<lparr>issue_type = ''column_values'', issue_message = m\<rparr> \<in> set rest \<and>
          (m = Differences ''b'' \<or> (\<exists>i. m = DifferencesAt ''b'' i))) \<or>
       (\<exists>e. \<lparr>issue_type = ''sorting'', issue_message = SortingError e\<rparr> \<in> set rest))) \<and>
   wf_table table_123 \<and> 2 < num_rows table_123 \<and> remove_row 2 table_123 = table_12 \<and>
   (\<exists>issues. compare_issues table_123 (remove_row 2 table_123) ''Table 1'' ''Table 2'' = Inr issues \<and>
      length (filter (\<lambda>i. issue_type i = ''row_count'') issues) = 1)"
proof -
  have rows: "num_rows table_abc = 2" "num_rows table_abd3 = 3" "2 < num_rows table_123"
    by (simp_all add: table_abc_def table_abd3_def table_123_def)
  then have ne: "num_rows table_abc \<noteq> num_rows table_abd3" by simp
  note t = row_count_mismatch[of table_abc table_abd3 "''Table 1''" "''Table 2''" table_123 2]
  from t wf_table_abc ne obtain rest where
    rest: "compare_issues table_abc table_abd3 ''Table 1'' ''Table 2'' =
           Inr (\<lparr>issue_type = ''row_count'',
                 issue_message =
                   RowCountMismatch ''Table 1'' (num_rows table_abc) ''Table 2''
                     (num_rows table_abd3)\<rparr> #
                (if set (column_names table_abc) - set (column_names table_abd3) \<noteq> {} then
                   [\<lparr>issue_type = ''columns'',
                     issue_message = AdditionalColumns ''Table 1''
                       (sorted_list_of_set
                          (set (column_names table_abc) - set (column_names table_abd3)))\<rparr>]
                 else []) @
                (if set (column_names table_abd3) - set (column_names table_abc) \<noteq> {} then
                   [\<lparr>issue_type = ''columns'',
                     issue_message = AdditionalColumns ''Table 2''
                       (sorted_list_of_set
                          (set (column_names table_abd3) - set (column_names table_abc)))\<rparr>]
                 else []) @
                rest)"
      and rbr: "row_by_row_issues table_abc table_abd3 = Inr rest"
      and vals: "\<forall>k s1 s2 c col1 col2 ty.
            common_cols table_abc table_abd3 \<noteq> {} \<and> 0 < num_rows table_abc \<and>
            0 < num_rows table_abd3 \<and>
            k \<in> common_cols table_abc table_abd3 \<and> column_scalar table_abc k \<and>
            (\<forall>c'\<in>common_cols table_abc table_abd3. c' < k \<longrightarrow> column_nested table_abc c') \<and>
            sort_by table_abc k = Inr s1 \<and> sort_by table_abd3 k = Inr s2 \<and>
            c \<in> common_cols table_abc table_abd3 \<and> getitem s1 c = Inr col1 \<and>
            getitem s2 c = Inr col2 \<and>
            schema_field_type table_abc c = Inr ty \<and> columns_differ ty col1 col2 \<longrightarrow>
              (\<exists>m. \<lparr>issue_type = ''column_values'', issue_message = m\<rparr> \<in> set rest \<and>
                 (m = Differences c \<or> (\<exists>i. m = DifferencesAt c i))) \<or>
              (\<exists>e. \<lparr>issue_type = ''sorting'', issue_message = SortingError e\<rparr> \<in> set rest)"
    by blast
  from rbr row_by_row_abc_abd3 have r: "rest =
      [\<lparr>issue_type = ''column_values'', issue_message = Differences ''a''\<rparr>,
       \<lparr>issue_type = ''column_values'', issue_message = Differences ''b''\<rparr>]"
    by simp
  from rest r have 1: "compare_issues table_abc table_abd3 ''Table 1'' ''Table 2'' =
     Inr [\<lparr>issue_type = ''row_count'', issue_message = RowCountMismatch ''Table 1'' 2 ''Table 2'' 3\<rparr>,
          \<lparr>issue_type = ''columns'', issue_message = AdditionalColumns ''Table 1'' [''c'']\<rparr>,
          \<lparr>issue_type = ''columns'', issue_message = AdditionalColumns ''Table 2'' [''d'']\<rparr>,
          \<lparr>issue_type = ''column_values'', issue_message = Differences ''a''\<rparr>,
          \<lparr>issue_type = ''column_values'', issue_message = Differences ''b''\<rparr>]"
    by (simp add: names_table_abc names_table_abd3 abc_abd rows)
  have b: "''b'' \<in> common_cols table_abc table_abd3" by (simp add: common_abc_abd3)
  have guard: "common_cols table_abc table_abd3 \<noteq> {}" "0 < num_rows table_abc"
    "0 < num_rows table_abd3"
    by (simp_all add: common_abc_abd3 rows)
  from vals[rule_format, of "''a''" table_abc table_abd3_sorted "''b''"
      "\<lparr>cname = ''b'', ctype = Utf8, cvals = [StrV ''x'', StrV ''y'']\<rparr>"
      "\<lparr>cname = ''b'', ctype = Utf8, cvals = [StrV ''z'', StrV ''y'', Null]\<rparr>" Utf8]
    guard first_scalar_abc sort_by_table_abc sort_by_table_abd3 b column_b_abc_abd3
  have 2: "(\<exists>m. \<lparr>issue_type = ''column_values'', issue_message = m\<rparr> \<in> set rest \<and>
          (m = Differences ''b'' \<or> (\<exists>i. m = DifferencesAt ''b'' i))) \<or>
       (\<exists>e. \<lparr>issue_type = ''sorting'', issue_message = SortingError e\<rparr> \<in> set rest)"
    by blast
  from t wf_table_123 rows(3)
  have 3: "\<exists>issues. compare_issues table_123 (remove_row 2 table_123) ''Table 1'' ''Table 2'' =
      Inr issues \<and> length (filter (\<lambda>i. issue_type i = ''row_count'') issues) = 1"
    by blast
  from 1 2 3 rbr ne rows(3) wf_table_abc wf_table_123 remove_row_table_123
    sort_by_table_abc sort_by_table_abd3
  show ?thesis by blast
qed

subsection \<open>No exception leaves the comparator\<close>













end
